theory Spec2Isabelle
  imports Main "HOL-Library.Word"
begin

section \<open>Errors, the environment and effectful computations\<close>

text \<open>
  Every \<^verbatim>\<open>throw\<close> of the sources is a value of \<open>error\<close>:
  \<^item> \<open>ReferenceError\<close>: \<^verbatim>\<open>localStorage\<close> is not defined (the module is evaluated outside a browser);
  \<^item> \<open>LibraryError msg\<close>: an exception raised inside crypto-js (for instance \<^verbatim>\<open>Malformed UTF-8 data\<close>);
  \<^item> \<open>EncryptFailed\<close>: the \<^verbatim>\<open>new Error(...)\<close> of \<^verbatim>\<open>encryptText\<close>;
  \<^item> \<open>DecryptionEmpty\<close>: \<^verbatim>\<open>new Error('Decryption failed or resulted in empty string')\<close>;
  \<^item> \<open>PromptIdRequired\<close>: \<^verbatim>\<open>new Error('Prompt ID is required for update')\<close>;
  \<^item> \<open>PromptNotFound\<close>: the \<^verbatim>\<open>new Error(...)\<close> of \<^verbatim>\<open>copyPrompt\<close>;
  \<^item> \<open>UndefinedValue\<close>: a non-null assertion \<^verbatim>\<open>!\<close> on \<^verbatim>\<open>undefined\<close>.
\<close>

datatype error =
    ReferenceError
  | LibraryError string
  | EncryptFailed
  | DecryptionEmpty
  | PromptIdRequired
  | PromptNotFound
  | UndefinedValue

datatype prompt_type =
    ai_writing | ai_polishing | ai_analysis | worldbuilding | character
  | plot | introduction | outline | detailed_outline | book_tool

text \<open>
  The \<^verbatim>\<open>Prompt\<close> object. Optional fields are \<open>option\<close>s: \<open>None\<close> is an absent field.
  \<open>prompt_id\<close> is the field \<^verbatim>\<open>id\<close>, \<open>ptype\<close> the field \<^verbatim>\<open>type\<close>; a value of
  \<^verbatim>\<open>Omit<Prompt, 'id'>\<close> has \<open>prompt_id = None\<close>. Timestamps are milliseconds.
\<close>

record prompt =
  prompt_id :: "string option"
  title :: string
  ptype :: prompt_type
  content :: string
  description :: "string option"
  examples :: "string list"
  createdAt :: nat
  updatedAt :: nat
  userId :: "string option"
  isPublic :: "bool option"

text \<open>The \<^verbatim>\<open>UserPromptSelection\<close> object; \<open>sel_id\<close> is the store's auto-increment key.\<close>

record selection =
  sel_id :: "nat option"
  sel_userId :: string
  sel_promptId :: string
  sel_createdAt :: nat

text \<open>
  The environment the code runs in: the browser's \<^verbatim>\<open>localStorage\<close> (\<open>None\<close> when the global
  is not defined), the secure random source (an infinite byte sequence \<open>entropy\<close>, of which
  \<open>drawn\<close> bytes have been consumed), the clock read by \<^verbatim>\<open>new Date()\<close>, and the two object
  stores of the local database with their key generators.
\<close>

record world =
  localStorage :: "(string \<rightharpoonup> string) option"
  entropy :: "nat \<Rightarrow> 8 word"
  drawn :: nat
  clock :: nat
  prompts :: "prompt list"
  prompts_key :: nat
  selections :: "selection list"
  selections_key :: nat

text \<open>
  A computation reads and updates the environment and either returns a value or throws.
  The environment survives a throw, as it does in the source.
\<close>

type_synonym 'a io = "world \<Rightarrow> (error + 'a) \<times> world"

definition io_return :: "'a \<Rightarrow> 'a io" where
  "io_return x = (\<lambda>w. (Inr x, w))"

definition io_throw :: "error \<Rightarrow> 'a io" where
  "io_throw e = (\<lambda>w. (Inl e, w))"

definition io_bind :: "'a io \<Rightarrow> ('a \<Rightarrow> 'b io) \<Rightarrow> 'b io" where
  "io_bind m f = (\<lambda>w. case m w of (Inl e, w') \<Rightarrow> (Inl e, w') | (Inr x, w') \<Rightarrow> f x w')"

definition io_catch :: "'a io \<Rightarrow> (error \<Rightarrow> 'a io) \<Rightarrow> 'a io" where
  "io_catch m h = (\<lambda>w. case m w of (Inl e, w') \<Rightarrow> h e w' | (Inr x, w') \<Rightarrow> (Inr x, w'))"

definition io_lift :: "error + 'a \<Rightarrow> 'a io" where
  "io_lift r = (\<lambda>w. (r, w))"

definition startsWith :: "string \<Rightarrow> string \<Rightarrow> bool" where
  "startsWith s p = (take (length p) s = p)"

definition now :: "nat io" where
  "now = (\<lambda>w. (Inr (clock w), w))"

section \<open>The crypto-js interface\<close>

text \<open>
  crypto-js is an external package. Its cipher is a parameter of the model: a record of the
  operations behind the three calls the sources make.
  \<^item> \<open>AES_encrypt lib salt text key\<close> is the text of the ciphertext that
    \<^verbatim>\<open>CryptoJS.AES.encrypt(text, key).toString()\<close> returns when the library has drawn \<open>salt\<close>;
  \<^item> \<open>Salted lib ciphertext\<close> tells whether the library's parser finds the salted header in
    the input of a decryption;
  \<^item> \<open>AES_decrypt lib salt ciphertext key\<close> is the byte array of
    \<^verbatim>\<open>CryptoJS.AES.decrypt(ciphertext, key)\<close>: with \<open>salt = None\<close> when the input carries
    its salt, and with the salt the library has drawn when it does not;
  \<^item> \<open>Utf8_stringify lib bytes\<close> is \<^verbatim>\<open>bytes.toString(CryptoJS.enc.Utf8)\<close>.
  Each of them may throw; nothing is assumed of them.
\<close>

record cryptojs =
  AES_encrypt :: "8 word list \<Rightarrow> string \<Rightarrow> string \<Rightarrow> error + string"
  Salted :: "string \<Rightarrow> bool"
  AES_decrypt :: "8 word list option \<Rightarrow> string \<Rightarrow> string \<Rightarrow> error + 8 word list"
  Utf8_stringify :: "8 word list \<Rightarrow> error + string"

text \<open>\<^verbatim>\<open>CryptoJS.lib.WordArray.random(n)\<close>: the next \<open>n\<close> bytes of the random source.\<close>

definition WordArray_random :: "nat \<Rightarrow> (8 word list) io" where
  "WordArray_random n =
     (\<lambda>w. (Inr (map (entropy w) [drawn w ..< drawn w + n]), w\<lparr>drawn := drawn w + n\<rparr>))"

text \<open>
  The two calls of the cipher. An encryption draws a salt of 8 bytes. A decryption draws one
  only when its input carries none: then the key it derives, and so its result, changes from
  one call to the next.
\<close>

definition CryptoJS_AES_encrypt :: "cryptojs \<Rightarrow> string \<Rightarrow> string \<Rightarrow> string io" where
  "CryptoJS_AES_encrypt lib text key =
     io_bind (WordArray_random 8) (\<lambda>salt. io_lift (AES_encrypt lib salt text key))"

definition CryptoJS_AES_decrypt :: "cryptojs \<Rightarrow> string \<Rightarrow> string \<Rightarrow> (8 word list) io" where
  "CryptoJS_AES_decrypt lib ciphertext key =
     (if Salted lib ciphertext then io_lift (AES_decrypt lib None ciphertext key)
      else io_bind (WordArray_random 8) (\<lambda>salt.
             io_lift (AES_decrypt lib (Some salt) ciphertext key)))"

definition hex_digit :: "nat \<Rightarrow> char" where
  "hex_digit d = ''0123456789abcdef'' ! (d mod 16)"

text \<open>\<^verbatim>\<open>wordArray.toString(CryptoJS.enc.Hex)\<close>: two lower-case hexadecimal digits per byte.\<close>

definition Hex_stringify :: "8 word list \<Rightarrow> string" where
  "Hex_stringify bytes =
     concat (map (\<lambda>b. [hex_digit (unat b div 16), hex_digit (unat b mod 16)]) bytes)"

text \<open>\<^verbatim>\<open>localStorage.getItem\<close> and \<^verbatim>\<open>localStorage.setItem\<close>.\<close>

definition getItem :: "string \<Rightarrow> (string option) io" where
  "getItem k = (\<lambda>w. case localStorage w of
                      None \<Rightarrow> (Inl ReferenceError, w)
                    | Some m \<Rightarrow> (Inr (m k), w))"

definition setItem :: "string \<Rightarrow> string \<Rightarrow> unit io" where
  "setItem k v = (\<lambda>w. case localStorage w of
                        None \<Rightarrow> (Inl ReferenceError, w)
                      | Some m \<Rightarrow> (Inr (), w\<lparr>localStorage := Some (m(k \<mapsto> v))\<rparr>))"

section \<open>The encryption utilities\<close>

definition KEY_SLOT :: string where
  "KEY_SLOT = ''zhuguang_local_encryption_key''"

text \<open>
  \<^verbatim>\<open>generateLocalEncryptionKey\<close>. The test \<^verbatim>\<open>if (storedKey)\<close> fails for \<^verbatim>\<open>null\<close> and for the
  empty string.
\<close>

definition generateLocalEncryptionKey :: "string io" where
  "generateLocalEncryptionKey =
     io_bind (getItem KEY_SLOT) (\<lambda>storedKey.
       if storedKey \<noteq> None \<and> storedKey \<noteq> Some [] then
         (case storedKey of Some k \<Rightarrow> io_return k | None \<Rightarrow> io_throw UndefinedValue)
       else
         io_bind (WordArray_random (256 div 8)) (\<lambda>bytes.
           let newKey = Hex_stringify bytes in
           io_bind (setItem KEY_SLOT newKey) (\<lambda>_. io_return newKey)))"

text \<open>\<^verbatim>\<open>encryptText\<close>: any exception of the library is replaced by a fresh \<^verbatim>\<open>Error\<close>.\<close>

definition encryptText :: "cryptojs \<Rightarrow> string \<Rightarrow> string \<Rightarrow> string io" where
  "encryptText lib text key =
     io_catch (CryptoJS_AES_encrypt lib text key) (\<lambda>error. io_throw EncryptFailed)"

text \<open>
  \<^verbatim>\<open>decryptText\<close>: an empty result is thrown as an error, and the handler rethrows whatever
  it caught.
\<close>

definition decryptText :: "cryptojs \<Rightarrow> string \<Rightarrow> string \<Rightarrow> string io" where
  "decryptText lib encryptedText key =
     io_catch
       (io_bind (CryptoJS_AES_decrypt lib encryptedText key) (\<lambda>bytes.
          io_bind (io_lift (Utf8_stringify lib bytes)) (\<lambda>decrypted.
            if decrypted = [] then io_throw DecryptionEmpty else io_return decrypted)))
       (\<lambda>error. io_throw error)"

text \<open>\<^verbatim>\<open>isEncrypted\<close>: the prefix test, then a trial decryption whose failure is caught.\<close>

definition isEncrypted :: "cryptojs \<Rightarrow> string \<Rightarrow> string \<Rightarrow> bool io" where
  "isEncrypted lib text key =
     (if text = [] \<or> \<not> startsWith text ''U2F'' then io_return False
      else io_catch
             (io_bind (decryptText lib text key) (\<lambda>decrypted. io_return (decrypted \<noteq> text)))
             (\<lambda>error. io_return False))"

section \<open>The prompt encryption manager\<close>

definition encryptPrompt :: "cryptojs \<Rightarrow> prompt \<Rightarrow> prompt io" where
  "encryptPrompt lib prompt =
     io_catch
       (io_bind generateLocalEncryptionKey (\<lambda>key.
          io_bind (isEncrypted lib (content prompt) key) (\<lambda>enc.
            if enc then io_return prompt
            else io_bind (encryptText lib (content prompt) key) (\<lambda>encryptedContent.
                   io_return (prompt\<lparr>content := encryptedContent\<rparr>)))))
       (\<lambda>error. io_return prompt)"

definition decryptPrompt :: "cryptojs \<Rightarrow> prompt \<Rightarrow> prompt io" where
  "decryptPrompt lib prompt =
     io_catch
       (io_bind generateLocalEncryptionKey (\<lambda>key.
          io_bind (isEncrypted lib (content prompt) key) (\<lambda>enc.
            if \<not> enc then io_return prompt
            else io_bind (decryptText lib (content prompt) key) (\<lambda>decryptedContent.
                   io_return (prompt\<lparr>content := decryptedContent\<rparr>)))))
       (\<lambda>error. io_return prompt)"

text \<open>\<^verbatim>\<open>decryptPrompts\<close>: the \<^verbatim>\<open>for ... of\<close> loop, pushing each result onto the array built so far.\<close>

fun decryptPrompts_loop :: "cryptojs \<Rightarrow> prompt list \<Rightarrow> prompt list \<Rightarrow> (prompt list) io" where
  "decryptPrompts_loop lib [] decryptedPrompts w = (Inr decryptedPrompts, w)"
| "decryptPrompts_loop lib (prompt # rest) decryptedPrompts w =
     (case decryptPrompt lib prompt w of
        (Inl e, w') \<Rightarrow> (Inl e, w')
      | (Inr decryptedPrompt, w') \<Rightarrow>
          decryptPrompts_loop lib rest (decryptedPrompts @ [decryptedPrompt]) w')"

definition decryptPrompts :: "cryptojs \<Rightarrow> prompt list \<Rightarrow> (prompt list) io" where
  "decryptPrompts lib ps = decryptPrompts_loop lib ps []"

definition decryptPromptOnDemand :: "cryptojs \<Rightarrow> prompt \<Rightarrow> string io" where
  "decryptPromptOnDemand lib prompt =
     io_catch
       (io_bind generateLocalEncryptionKey (\<lambda>key.
          io_bind (isEncrypted lib (content prompt) key) (\<lambda>enc.
            if \<not> enc then io_return (content prompt)
            else decryptText lib (content prompt) key)))
       (\<lambda>error. io_return (content prompt))"

section \<open>The local database\<close>

text \<open>
  The generic operations of the local store (\<^verbatim>\<open>dbOperations\<close> of \<^verbatim>\<open>core/operations\<close>, which
  the repositories import) are not among the sources. The spec describes them as generic
  get/add/update/remove over a key-value store, the identifier being assigned by the store on
  create. Here a store is the list of its objects in insertion order, with a counter for the
  next key.
\<close>

text \<open>Modelled from the spec: the text of a key the prompt store assigns (\<^verbatim>\<open>String(n)\<close>).\<close>

fun decimal :: "nat \<Rightarrow> string" where
  "decimal n = (if n < 10 then [char_of (48 + n)]
                else decimal (n div 10) @ [char_of (48 + n mod 10)])"

text \<open>
  Modelled from the spec: \<^verbatim>\<open>dbOperations.add\<close> on the prompt store assigns the next key as
  the identifier, appends the object and returns it.
\<close>

definition dbOperations_add_prompt :: "prompt \<Rightarrow> prompt io" where
  "dbOperations_add_prompt p =
     (\<lambda>w. let stored = p\<lparr>prompt_id := Some (decimal (prompts_key w))\<rparr>
          in (Inr stored, w\<lparr>prompts := prompts w @ [stored], prompts_key := Suc (prompts_key w)\<rparr>))"

text \<open>
  Modelled from the spec: \<^verbatim>\<open>dbOperations.getById\<close> on the prompt store returns the object with
  the identifier, or \<^verbatim>\<open>null\<close>.
\<close>

definition dbOperations_getById_prompt :: "string \<Rightarrow> (prompt option) io" where
  "dbOperations_getById_prompt i = (\<lambda>w. (Inr (find (\<lambda>p. prompt_id p = Some i) (prompts w)), w))"

text \<open>
  Modelled from the spec: \<^verbatim>\<open>dbOperations.update\<close> on the prompt store puts the object in the
  place of the stored objects with its identifier (at the end when there is none) and returns it.
\<close>

definition dbOperations_update_prompt :: "prompt \<Rightarrow> prompt io" where
  "dbOperations_update_prompt p =
     (\<lambda>w. (Inr p,
           w\<lparr>prompts :=
               (if list_ex (\<lambda>r. prompt_id r = prompt_id p) (prompts w)
                then map (\<lambda>r. if prompt_id r = prompt_id p then p else r) (prompts w)
                else prompts w @ [p])\<rparr>))"

text \<open>Modelled from the spec: \<^verbatim>\<open>dbOperations.getAll\<close> on the selection store.\<close>

definition dbOperations_getAll_selection :: "(selection list) io" where
  "dbOperations_getAll_selection = (\<lambda>w. (Inr (selections w), w))"

text \<open>
  Modelled from the spec: \<^verbatim>\<open>dbOperations.add\<close> on the selection store assigns the next
  auto-increment key, appends the object and returns it.
\<close>

definition dbOperations_add_selection :: "selection \<Rightarrow> selection io" where
  "dbOperations_add_selection s =
     (\<lambda>w. let stored = s\<lparr>sel_id := Some (selections_key w)\<rparr>
          in (Inr stored,
              w\<lparr>selections := selections w @ [stored], selections_key := Suc (selections_key w)\<rparr>))"

text \<open>Modelled from the spec: \<^verbatim>\<open>dbOperations.remove\<close> on the selection store deletes by key.\<close>

definition dbOperations_remove_selection :: "nat \<Rightarrow> unit io" where
  "dbOperations_remove_selection i =
     (\<lambda>w. (Inr (), w\<lparr>selections := filter (\<lambda>s. sel_id s \<noteq> Some i) (selections w)\<rparr>))"

section \<open>The prompt repository\<close>

definition addPrompt :: "cryptojs \<Rightarrow> prompt \<Rightarrow> prompt io" where
  "addPrompt lib prompt =
     io_bind (encryptPrompt lib prompt) (\<lambda>encryptedPrompt. dbOperations_add_prompt encryptedPrompt)"

definition getPromptById :: "cryptojs \<Rightarrow> string \<Rightarrow> bool \<Rightarrow> (prompt option) io" where
  "getPromptById lib i decryptContent =
     io_bind (dbOperations_getById_prompt i) (\<lambda>prompt.
       case prompt of
         None \<Rightarrow> io_return None
       | Some p \<Rightarrow>
           if decryptContent then io_bind (decryptPrompt lib p) (\<lambda>d. io_return (Some d))
           else io_return (Some p))"

text \<open>
  \<^verbatim>\<open>updatePrompt\<close>. The test \<^verbatim>\<open>!prompt.id\<close> holds for an absent and for an empty identifier;
  the object handed to the store is the spread of the encrypted prompt with \<^verbatim>\<open>id\<close> overwritten
  by \<^verbatim>\<open>String(prompt.id)\<close>.
\<close>

definition updatePrompt :: "cryptojs \<Rightarrow> prompt \<Rightarrow> prompt io" where
  "updatePrompt lib prompt =
     (if prompt_id prompt = None \<or> prompt_id prompt = Some [] then io_throw PromptIdRequired
      else io_bind (encryptPrompt lib prompt) (\<lambda>encryptedPrompt.
             dbOperations_update_prompt (encryptedPrompt\<lparr>prompt_id := prompt_id prompt\<rparr>)))"

text \<open>The suffix appended to the title of a copy: a space and a two-character label in parentheses.\<close>

definition copy_suffix :: string where
  "copy_suffix = [CHR '' '', CHR ''('', CHR 0xE5, CHR 0xA4, CHR 0x8D, CHR 0xE5, CHR 0x88, CHR 0xB6, CHR '')'']"

text \<open>The object literal \<^verbatim>\<open>newPromptData\<close> of \<^verbatim>\<open>copyPrompt\<close>; it has no \<^verbatim>\<open>publicChangedAt\<close> key.\<close>

definition newPromptData :: "prompt \<Rightarrow> nat \<Rightarrow> nat \<Rightarrow> prompt" where
  "newPromptData originalPrompt created updated =
     \<lparr>prompt_id = None,
      title = title originalPrompt @ copy_suffix,
      ptype = ptype originalPrompt,
      content = content originalPrompt,
      description = description originalPrompt,
      examples = examples originalPrompt,
      createdAt = created,
      updatedAt = updated,
      userId = userId originalPrompt,
      isPublic = Some False\<rparr>"

definition copyPrompt :: "cryptojs \<Rightarrow> string \<Rightarrow> prompt io" where
  "copyPrompt lib promptId =
     io_bind (getPromptById lib promptId True) (\<lambda>originalPrompt.
       case originalPrompt of
         None \<Rightarrow> io_throw PromptNotFound
       | Some original \<Rightarrow>
           io_bind now (\<lambda>created. io_bind now (\<lambda>updated.
             addPrompt lib (newPromptData original created updated))))"

text \<open>
  The save handler of the prompt page (\<^verbatim>\<open>onSave\<close>): it drops \<^verbatim>\<open>isPublic\<close> from the edited prompt by
  destructuring, stamps \<^verbatim>\<open>updatedAt\<close> and calls \<^verbatim>\<open>updatePrompt\<close>; a failure is caught and shown as an
  alert. The updates of the view's own state are left out.
\<close>

definition onSave :: "cryptojs \<Rightarrow> prompt option \<Rightarrow> unit io" where
  "onSave lib editedPrompt =
     (case editedPrompt of
        None \<Rightarrow> io_return ()
      | Some edited \<Rightarrow>
          if prompt_id edited = None \<or> prompt_id edited = Some [] then io_return ()
          else io_catch
                 (io_bind now (\<lambda>t.
                    let restOfEditedPrompt = edited\<lparr>isPublic := None\<rparr>;
                        updatedData = restOfEditedPrompt\<lparr>updatedAt := t\<rparr>
                    in io_bind (updatePrompt lib updatedData) (\<lambda>updated. io_return ())))
                 (\<lambda>error. io_return ()))"


section \<open>The user prompt selection repository\<close>

text \<open>The default value \<^verbatim>\<open>'local_user'\<close> of the parameter \<^verbatim>\<open>userId\<close>.\<close>

definition userId_or_default :: "string option \<Rightarrow> string" where
  "userId_or_default u = (case u of None \<Rightarrow> ''local_user'' | Some v \<Rightarrow> v)"

definition same_selection :: "string \<Rightarrow> string \<Rightarrow> selection \<Rightarrow> bool" where
  "same_selection promptId uid sel = (sel_promptId sel = promptId \<and> sel_userId sel = uid)"

text \<open>
  \<^verbatim>\<open>addUserPromptSelection\<close> suspends at \<^verbatim>\<open>await dbOperations.getAll\<close>, and other calls may run
  before it resumes. It is therefore two steps. The first builds the new selection and reads
  the store; it hands the second the new selection and the list it read.
\<close>

definition addUserPromptSelection_read ::
  "string \<Rightarrow> string option \<Rightarrow> (selection \<times> selection list) io" where
  "addUserPromptSelection_read promptId userId_opt =
     (let uid = userId_or_default userId_opt in
      io_bind now (\<lambda>t.
        let newSelection = \<lparr>sel_id = None, sel_userId = uid, sel_promptId = promptId, sel_createdAt = t\<rparr> in
        io_bind dbOperations_getAll_selection (\<lambda>existingSelections.
          io_return (newSelection, existingSelections))))"

text \<open>
  The second step works on the list that was read, whatever the store holds by now. The
  non-null assertion on the result of \<^verbatim>\<open>find\<close> is the branch \<open>UndefinedValue\<close>, which is never
  taken after \<^verbatim>\<open>some\<close> has answered true.
\<close>

definition addUserPromptSelection_resume ::
  "string \<Rightarrow> string option \<Rightarrow> selection \<times> selection list \<Rightarrow> selection io" where
  "addUserPromptSelection_resume promptId userId_opt read =
     (let uid = userId_or_default userId_opt;
          newSelection = fst read;
          existingSelections = snd read;
          alreadyExists = list_ex (same_selection promptId uid) existingSelections in
      if alreadyExists then
        (case find (same_selection promptId uid) existingSelections of
           Some sel \<Rightarrow> io_return sel
         | None \<Rightarrow> io_throw UndefinedValue)
      else io_bind (dbOperations_add_selection newSelection) (\<lambda>addedSelection.
             io_return addedSelection))"

text \<open>A call of \<^verbatim>\<open>addUserPromptSelection\<close> during which no other call runs.\<close>

definition addUserPromptSelection :: "string \<Rightarrow> string option \<Rightarrow> selection io" where
  "addUserPromptSelection promptId userId_opt =
     io_bind (addUserPromptSelection_read promptId userId_opt)
       (addUserPromptSelection_resume promptId userId_opt)"

text \<open>
  Two calls for the same pair, started one after the other before either resumes: both read
  the store, then both resume.
\<close>

definition addUserPromptSelection_twice_interleaved ::
  "string \<Rightarrow> string option \<Rightarrow> (selection \<times> selection) io" where
  "addUserPromptSelection_twice_interleaved promptId userId_opt =
     io_bind (addUserPromptSelection_read promptId userId_opt) (\<lambda>read1.
       io_bind (addUserPromptSelection_read promptId userId_opt) (\<lambda>read2.
         io_bind (addUserPromptSelection_resume promptId userId_opt read1) (\<lambda>sel1.
           io_bind (addUserPromptSelection_resume promptId userId_opt read2) (\<lambda>sel2.
             io_return (sel1, sel2)))))"

text \<open>
  \<^verbatim>\<open>removeUserPromptSelection\<close>, in the same two steps: the read is \<^verbatim>\<open>dbOperations.getAll\<close>, and
  the second step, on the list that was read, removes the selection only when it carries a
  truthy key (present and not zero).
\<close>

definition removeUserPromptSelection_resume ::
  "string \<Rightarrow> string option \<Rightarrow> selection list \<Rightarrow> unit io" where
  "removeUserPromptSelection_resume promptId userId_opt sels =
     (let uid = userId_or_default userId_opt in
      case find (same_selection promptId uid) sels of
        None \<Rightarrow> io_return ()
      | Some selectionToRemove \<Rightarrow>
          (case sel_id selectionToRemove of
             None \<Rightarrow> io_return ()
           | Some i \<Rightarrow> if i \<noteq> 0 then dbOperations_remove_selection i else io_return ()))"

definition removeUserPromptSelection :: "string \<Rightarrow> string option \<Rightarrow> unit io" where
  "removeUserPromptSelection promptId userId_opt =
     io_bind dbOperations_getAll_selection (removeUserPromptSelection_resume promptId userId_opt)"

text \<open>No two stored selections share the pair of prompt identifier and user identifier.\<close>

definition no_duplicate_selection :: "world \<Rightarrow> bool" where
  "no_duplicate_selection w = distinct (map (\<lambda>s. (sel_promptId s, sel_userId s)) (selections w))"

section \<open>Notions used in the statements\<close>

text \<open>The salt the next call of the cipher draws, and the key a call generates when the slot is empty.\<close>

definition next_salt :: "world \<Rightarrow> 8 word list" where
  "next_salt w = map (entropy w) [drawn w ..< drawn w + 8]"

definition fresh_key :: "world \<Rightarrow> string" where
  "fresh_key w = Hex_stringify (map (entropy w) [drawn w ..< drawn w + 32])"

text \<open>Reading hexadecimal text back into bytes, two lower-case digits per byte.\<close>

definition hex_value :: "char \<Rightarrow> nat" where
  "hex_value c = (if c \<in> set ''0123456789'' then of_char c - 48 else of_char c - 87)"

fun Hex_parse :: "string \<Rightarrow> 8 word list" where
  "Hex_parse (h # l # rest) = of_nat (hex_value h * 16 + hex_value l) # Hex_parse rest"
| "Hex_parse _ = []"

text \<open>
  The round trip of the claim, \<^verbatim>\<open>decryptText(encryptText(p, k), k)\<close>, and the same round trip
  through the library alone, without the two wrappers.
\<close>

definition round_trip :: "cryptojs \<Rightarrow> string \<Rightarrow> string \<Rightarrow> string io" where
  "round_trip lib p k = io_bind (encryptText lib p k) (\<lambda>c. decryptText lib c k)"


text \<open>The environment after \<^verbatim>\<open>decryptPrompt\<close> has run on each prompt of a list in turn.\<close>

definition env_after :: "cryptojs \<Rightarrow> prompt list \<Rightarrow> world \<Rightarrow> world" where
  "env_after lib ps w = fold (\<lambda>p v. snd (decryptPrompt lib p v)) ps w"

text \<open>The results of \<^verbatim>\<open>decryptPrompt\<close> on the prompts of a list, each in the environment its predecessor left.\<close>

fun decrypted_in_turn :: "cryptojs \<Rightarrow> prompt list \<Rightarrow> world \<Rightarrow> (error + prompt) list" where
  "decrypted_in_turn lib [] w = []"
| "decrypted_in_turn lib (p # ps) w =
     fst (decryptPrompt lib p w) # decrypted_in_turn lib ps (snd (decryptPrompt lib p w))"

section \<open>A concrete cipher and concrete environments\<close>

text \<open>
  An instance of the library interface on which the definitions can be evaluated: a salted
  shift cipher that writes the same header as the library. The salt and the key move every
  byte of the text by a fixed amount; the salt is stored after the header. As in the library,
  input without the header is decrypted with a salt drawn for the call, a text or key that
  cannot be encoded (here: one that contains the character \<open>0xFF\<close>) makes the cipher throw, and
  bytes that are no text (here: a byte \<open>0xFF\<close>) make the conversion to text throw.
\<close>

definition byte_of_char :: "char \<Rightarrow> 8 word" where
  "byte_of_char c = of_nat (of_char c)"

definition char_of_byte :: "8 word \<Rightarrow> char" where
  "char_of_byte b = char_of (unat b)"

definition key_sum :: "string \<Rightarrow> 8 word" where
  "key_sum key = sum_list (map byte_of_char key)"

definition shift_encrypt :: "8 word list \<Rightarrow> string \<Rightarrow> string \<Rightarrow> error + string" where
  "shift_encrypt salt text key =
     (if CHR 0xFF \<in> set text \<or> CHR 0xFF \<in> set key then Inl (LibraryError ''URI malformed'')
      else Inr (''U2FsdGVkX1'' @
                map char_of_byte
                  (sum_list salt #
                   map (\<lambda>b. b + sum_list salt + key_sum key) (map byte_of_char text))))"

definition shift_salted :: "string \<Rightarrow> bool" where
  "shift_salted c = (startsWith c ''U2FsdGVkX1'' \<and> 10 < length c)"

definition shift_decrypt :: "8 word list option \<Rightarrow> string \<Rightarrow> string \<Rightarrow> error + 8 word list" where
  "shift_decrypt salt c key =
     (if CHR 0xFF \<in> set key then Inl (LibraryError ''URI malformed'')
      else case salt of
             None \<Rightarrow>
               (case map byte_of_char (drop 10 c) of
                  [] \<Rightarrow> Inr []
                | s # body \<Rightarrow> Inr (map (\<lambda>b. b - s - key_sum key) body))
           | Some drawn_salt \<Rightarrow>
               Inr (map (\<lambda>b. b - sum_list drawn_salt - key_sum key) (map byte_of_char c)))"

definition shift_stringify :: "8 word list \<Rightarrow> error + string" where
  "shift_stringify bytes =
     (if 255 \<in> set bytes then Inl (LibraryError ''Malformed UTF-8 data'')
      else Inr (map char_of_byte bytes))"

definition shift_cipher :: cryptojs where
  "shift_cipher =
     \<lparr>AES_encrypt = shift_encrypt, Salted = shift_salted, AES_decrypt = shift_decrypt,
      Utf8_stringify = shift_stringify\<rparr>"

text \<open>
  Environments: a browser with empty storage and empty stores, the same with a key in the key
  slot, and one without \<^verbatim>\<open>localStorage\<close>.
\<close>

definition world0 :: world where
  "world0 = \<lparr>localStorage = Some Map.empty, entropy = (\<lambda>n. of_nat n), drawn = 0, clock = 1000,
             prompts = [], prompts_key = 1, selections = [], selections_key = 1\<rparr>"

definition world_key1 :: world where
  "world_key1 = world0\<lparr>localStorage := Some [KEY_SLOT \<mapsto> ''key1'']\<rparr>"

definition world_ssr :: world where
  "world_ssr = world0\<lparr>localStorage := None\<rparr>"

definition prompt0 :: prompt where
  "prompt0 = \<lparr>prompt_id = Some ''7'', title = ''Hero'', ptype = character, content = ''Hello World'',
              description = None, examples = [], createdAt = 10, updatedAt = 20,
              userId = None, isPublic = Some True\<rparr>"

text \<open>
  The text \<open>Hello World\<close> encrypted by the shift cipher under \<open>key1\<close> with the salt bytes
  \<open>0, ..., 7\<close>, the empty text encrypted likewise, a prompt store that holds the former, and a
  selection store with one selection.
\<close>

definition hello_cipher :: string where
  "hello_cipher = ''U2FsdGVkX1'' @
     [CHR 0x1C, CHR 0xDE, CHR 0xFB, CHR 0x02, CHR 0x02, CHR 0x05, CHR 0xB6, CHR 0xED, CHR 0x05,
      CHR 0x08, CHR 0x02, CHR 0xFA]"

definition empty_cipher :: string where
  "empty_cipher = ''U2FsdGVkX1'' @ [CHR 0x1C]"

definition world_db :: world where
  "world_db = world_key1\<lparr>prompts := [prompt0\<lparr>content := hello_cipher\<rparr>], prompts_key := 8\<rparr>"

definition selection0 :: selection where
  "selection0 = \<lparr>sel_id = Some 1, sel_userId = ''local_user'', sel_promptId = ''7'', sel_createdAt = 5\<rparr>"

definition world_sel :: world where
  "world_sel = world0\<lparr>selections := [selection0], selections_key := 2\<rparr>"

text \<open>
  A text that starts with \<open>U2F\<close> and carries no salt: under \<open>key1\<close> the shift cipher turns it
  into text with the salt bytes \<open>0, ..., 7\<close> and into bytes that are no text with the salt
  bytes \<open>8, ..., 15\<close>.
\<close>

definition unsalted_text :: string where
  "unsalted_text = ''U2F'' @ [CHR 0xD5]"

text \<open>
  A text the shift cipher refuses to encrypt, and the result of encrypting \<open>empty_cipher\<close> under
  \<open>key1\<close> with the salt bytes \<open>8, ..., 15\<close>.
\<close>

definition bad_text :: string where
  "bad_text = ''a'' @ [CHR 0xFF]"

definition twice_cipher :: string where
  "twice_cipher = ''U2FsdGVkX1'' @
     [CHR 0x5C, CHR 0x2B, CHR 0x08, CHR 0x1C, CHR 0x49, CHR 0x3A, CHR 0x1D, CHR 0x2C, CHR 0x41,
      CHR 0x2E, CHR 0x07, CHR 0xF2]"

section \<open>Basic facts\<close>

lemmas io_defs = io_return_def io_throw_def io_bind_def io_catch_def io_lift_def


lemma char_of_byte_inverse [simp]: "char_of_byte (byte_of_char c) = c"
  by (simp add: char_of_byte_def byte_of_char_def unat_of_nat)

lemma byte_of_char_inverse [simp]: "byte_of_char (char_of_byte b) = b"
proof -
  have "unat b < 256" using unsigned_less[of b, where 'a=nat] by simp
  then show ?thesis by (simp add: char_of_byte_def byte_of_char_def)
qed

lemma hex_value_digit_all: "\<forall>n \<in> set [0..<16]. hex_value (hex_digit n) = n"
  by code_simp

lemma hex_value_digit: "n < 16 \<Longrightarrow> hex_value (hex_digit n) = n"
  using hex_value_digit_all by simp

lemma Hex_parse_stringify: "Hex_parse (Hex_stringify bytes) = bytes"
proof (induction bytes)
  case Nil
  show ?case by (simp add: Hex_stringify_def)
next
  case (Cons b bs)
  have "unat b < 256" using unsigned_less[of b, where 'a=nat] by simp
  then have d: "unat b div 16 < 16" by simp
  have m: "unat b mod 16 < 16" by simp
  have "Hex_stringify (b # bs) = hex_digit (unat b div 16) # hex_digit (unat b mod 16) # Hex_stringify bs"
    by (simp add: Hex_stringify_def)
  then show ?case
    using Cons.IH by (simp add: hex_value_digit[OF d] hex_value_digit[OF m])
qed

lemma length_Hex_stringify: "length (Hex_stringify bytes) = 2 * length bytes"
  by (induction bytes) (simp_all add: Hex_stringify_def)

lemma fresh_key_nonempty: "fresh_key w \<noteq> []"
proof -
  have "length (fresh_key w) = 64" by (simp add: fresh_key_def length_Hex_stringify)
  then show ?thesis by auto
qed

lemma generate_unavailable:
  "localStorage w = None \<Longrightarrow> generateLocalEncryptionKey w = (Inl ReferenceError, w)"
  by (simp add: generateLocalEncryptionKey_def getItem_def io_defs)

lemma generate_stored:
  "localStorage w = Some m \<Longrightarrow> m KEY_SLOT = Some k \<Longrightarrow> k \<noteq> [] \<Longrightarrow>
   generateLocalEncryptionKey w = (Inr k, w)"
  by (simp add: generateLocalEncryptionKey_def getItem_def io_defs)

lemma generate_fresh:
  "localStorage w = Some m \<Longrightarrow> m KEY_SLOT = None \<or> m KEY_SLOT = Some [] \<Longrightarrow>
   generateLocalEncryptionKey w =
     (Inr (fresh_key w),
      w\<lparr>drawn := drawn w + 32, localStorage := Some (m(KEY_SLOT \<mapsto> fresh_key w))\<rparr>)"
  by (auto simp add: generateLocalEncryptionKey_def getItem_def setItem_def WordArray_random_def
      fresh_key_def io_defs Let_def)

lemma generate_Inr:
  assumes "generateLocalEncryptionKey w = (Inr k, w1)"
  shows "k \<noteq> [] \<and> (\<exists>m. localStorage w1 = Some m \<and> m KEY_SLOT = Some k)"
proof (cases "localStorage w")
  case None
  with assms show ?thesis by (simp add: generate_unavailable)
next
  case (Some m)
  show ?thesis
  proof (cases "m KEY_SLOT = None \<or> m KEY_SLOT = Some []")
    case True
    from generate_fresh[OF Some True] assms show ?thesis
      by (auto simp: fresh_key_nonempty)
  next
    case False
    then obtain k' where k': "m KEY_SLOT = Some k'" "k' \<noteq> []" by auto
    from generate_stored[OF Some k'] assms Some k' show ?thesis by auto
  qed
qed

lemma generate_Inl:
  assumes "generateLocalEncryptionKey w = (Inl e, w1)"
  shows "w1 = w \<and> e = ReferenceError \<and> localStorage w = None"
proof (cases "localStorage w")
  case None
  with assms show ?thesis by (simp add: generate_unavailable)
next
  case (Some m)
  show ?thesis
  proof (cases "m KEY_SLOT = None \<or> m KEY_SLOT = Some []")
    case True
    from generate_fresh[OF Some True] assms show ?thesis by simp
  next
    case False
    then obtain k' where k': "m KEY_SLOT = Some k'" "k' \<noteq> []" by auto
    from generate_stored[OF Some k'] assms show ?thesis by simp
  qed
qed

lemma generate_again:
  assumes "generateLocalEncryptionKey w = (Inr k, w1)" "localStorage w' = localStorage w1"
  shows "generateLocalEncryptionKey w' = (Inr k, w')"
proof -
  from generate_Inr[OF assms(1)] obtain m where "k \<noteq> []" "localStorage w1 = Some m" "m KEY_SLOT = Some k"
    by blast
  with assms(2) show ?thesis by (simp add: generate_stored)
qed

section \<open>C8: the local key is generated once\<close>

text \<open>
  Claim C8. Starting from a storage in which the key slot is empty, the first call of
  \<^verbatim>\<open>generateLocalEncryptionKey\<close> returns a freshly generated key, the 64 hexadecimal digits of
  the next 32 bytes of the random source (reading the digits back gives those bytes), stores it
  under the slot and changes nothing else but the position of the random source; from then
  on, in every environment whose storage is the one the first call left, a call returns the
  identical key and leaves the environment as it is.
\<close>

theorem local_key_generated_once:
  assumes "localStorage w = Some m" and "m KEY_SLOT = None"
  shows "\<exists>k w1. generateLocalEncryptionKey w = (Inr k, w1) \<and>
           k = Hex_stringify (map (entropy w) [drawn w ..< drawn w + 32]) \<and>
           Hex_parse k = map (entropy w) [drawn w ..< drawn w + 32] \<and> length k = 64 \<and>
           w1 = w\<lparr>drawn := drawn w + 32, localStorage := Some (m(KEY_SLOT \<mapsto> k))\<rparr> \<and>
           (\<forall>w'. localStorage w' = localStorage w1 \<longrightarrow> generateLocalEncryptionKey w' = (Inr k, w'))"
proof -
  let ?k = "fresh_key w"
  let ?w1 = "w\<lparr>drawn := drawn w + 32, localStorage := Some (m(KEY_SLOT \<mapsto> ?k))\<rparr>"
  have g: "generateLocalEncryptionKey w = (Inr ?k, ?w1)"
    using assms by (simp add: generate_fresh)
  have k: "?k = Hex_stringify (map (entropy w) [drawn w ..< drawn w + 32])"
    by (simp add: fresh_key_def)
  have p: "Hex_parse ?k = map (entropy w) [drawn w ..< drawn w + 32]"
    by (simp add: fresh_key_def Hex_parse_stringify)
  have l: "length ?k = 64" by (simp add: fresh_key_def length_Hex_stringify)
  have a: "\<forall>w'. localStorage w' = localStorage ?w1 \<longrightarrow> generateLocalEncryptionKey w' = (Inr ?k, w')"
    using generate_again[OF g] by blast
  from g k p l a show ?thesis by blast
qed

lemma fresh_key_world0:
  "fresh_key world0 = ''000102030405060708090a0b0c0d0e0f101112131415161718191a1b1c1d1e1f''"
  unfolding fresh_key_def world0_def by code_simp

theorem local_key_generated_once_witness:
  "localStorage world0 = Some Map.empty \<and> (Map.empty :: string \<rightharpoonup> string) KEY_SLOT = None \<and>
   generateLocalEncryptionKey world0 =
     (Inr ''000102030405060708090a0b0c0d0e0f101112131415161718191a1b1c1d1e1f'',
      world0\<lparr>drawn := 32,
             localStorage := Some [KEY_SLOT \<mapsto>
               ''000102030405060708090a0b0c0d0e0f101112131415161718191a1b1c1d1e1f'']\<rparr>) \<and>
   generateLocalEncryptionKey
     (world0\<lparr>drawn := 32,
             localStorage := Some [KEY_SLOT \<mapsto>
               ''000102030405060708090a0b0c0d0e0f101112131415161718191a1b1c1d1e1f'']\<rparr>) =
     (Inr ''000102030405060708090a0b0c0d0e0f101112131415161718191a1b1c1d1e1f'',
      world0\<lparr>drawn := 32,
             localStorage := Some [KEY_SLOT \<mapsto>
               ''000102030405060708090a0b0c0d0e0f101112131415161718191a1b1c1d1e1f'']\<rparr>)"
proof -
  have a: "localStorage world0 = Some Map.empty" by (simp add: world0_def)
  have b: "(Map.empty :: string \<rightharpoonup> string) KEY_SLOT = None" by simp
  have d: "drawn world0 = 0" by (simp add: world0_def)
  have f: "Hex_stringify (map (entropy world0) [drawn world0 ..< drawn world0 + 32]) =
      ''000102030405060708090a0b0c0d0e0f101112131415161718191a1b1c1d1e1f''"
    using fresh_key_world0 by (simp add: fresh_key_def)
  from local_key_generated_once[OF a b] obtain k w1 where
    1: "generateLocalEncryptionKey world0 = (Inr k, w1)"
    and 2: "k = Hex_stringify (map (entropy world0) [drawn world0 ..< drawn world0 + 32])"
    and 3: "w1 = world0\<lparr>drawn := drawn world0 + 32, localStorage := Some ((Map.empty :: string \<rightharpoonup> string)(KEY_SLOT \<mapsto> k))\<rparr>"
    and 4: "\<forall>w'. localStorage w' = localStorage w1 \<longrightarrow> generateLocalEncryptionKey w' = (Inr k, w')"
    by blast
  from 2 f have k: "k = ''000102030405060708090a0b0c0d0e0f101112131415161718191a1b1c1d1e1f''" by simp
  from 3 d k have w1: "w1 = world0\<lparr>drawn := 32,
             localStorage := Some [KEY_SLOT \<mapsto>
               ''000102030405060708090a0b0c0d0e0f101112131415161718191a1b1c1d1e1f'']\<rparr>" by simp
  from 4 have "generateLocalEncryptionKey w1 = (Inr k, w1)" by blast
  with 1 a b k w1 show ?thesis by simp
qed

section \<open>The calls of the cipher\<close>

lemma CryptoJS_AES_encrypt_eq:
  "CryptoJS_AES_encrypt lib p k w = (AES_encrypt lib (next_salt w) p k, w\<lparr>drawn := drawn w + 8\<rparr>)"
  by (simp add: CryptoJS_AES_encrypt_def WordArray_random_def next_salt_def io_defs)

lemma CryptoJS_AES_decrypt_salted:
  "Salted lib c \<Longrightarrow> CryptoJS_AES_decrypt lib c k w = (AES_decrypt lib None c k, w)"
  by (simp add: CryptoJS_AES_decrypt_def io_defs)

lemma CryptoJS_AES_decrypt_unsalted:
  "\<not> Salted lib c \<Longrightarrow>
   CryptoJS_AES_decrypt lib c k w =
     (AES_decrypt lib (Some (next_salt w)) c k, w\<lparr>drawn := drawn w + 8\<rparr>)"
  by (simp add: CryptoJS_AES_decrypt_def WordArray_random_def next_salt_def io_defs)

lemma encryptText_eq:
  "encryptText lib p k w =
     ((case AES_encrypt lib (next_salt w) p k of Inl e \<Rightarrow> Inl EncryptFailed | Inr c \<Rightarrow> Inr c),
      w\<lparr>drawn := drawn w + 8\<rparr>)"
  by (simp add: encryptText_def CryptoJS_AES_encrypt_eq io_defs split: sum.splits)

lemma decryptText_eq:
  "decryptText lib c k w =
     (case CryptoJS_AES_decrypt lib c k w of
        (Inl e, w') \<Rightarrow> (Inl e, w')
      | (Inr bytes, w') \<Rightarrow>
          (case Utf8_stringify lib bytes of
             Inl e \<Rightarrow> (Inl e, w')
           | Inr d \<Rightarrow> if d = [] then (Inl DecryptionEmpty, w') else (Inr d, w')))"
  by (simp add: decryptText_def io_defs split: prod.splits sum.splits)

lemma decryptText_world: "snd (decryptText lib c k w) = snd (CryptoJS_AES_decrypt lib c k w)"
  by (simp add: decryptText_eq split: prod.splits sum.splits)

lemma decryptText_salted:
  "Salted lib c \<Longrightarrow> AES_decrypt lib None c k = Inr bytes \<Longrightarrow> Utf8_stringify lib bytes = Inr d \<Longrightarrow>
   decryptText lib c k w = (if d = [] then Inl DecryptionEmpty else Inr d, w)"
  by (simp add: decryptText_eq CryptoJS_AES_decrypt_salted)

lemma decryptText_unsalted:
  "\<not> Salted lib c \<Longrightarrow> AES_decrypt lib (Some (next_salt w)) c k = Inr bytes \<Longrightarrow>
   Utf8_stringify lib bytes = r \<Longrightarrow>
   decryptText lib c k w =
     (case r of Inl e \<Rightarrow> Inl e | Inr d \<Rightarrow> if d = [] then Inl DecryptionEmpty else Inr d,
      w\<lparr>drawn := drawn w + 8\<rparr>)"
  by (simp add: decryptText_eq CryptoJS_AES_decrypt_unsalted split: sum.splits)

lemma isEncrypted_no_prefix:
  "t = [] \<or> \<not> startsWith t ''U2F'' \<Longrightarrow> isEncrypted lib t k w = (Inr False, w)"
  by (auto simp: isEncrypted_def io_defs)

lemma isEncrypted_prefix:
  "t \<noteq> [] \<Longrightarrow> startsWith t ''U2F'' \<Longrightarrow>
   isEncrypted lib t k w =
     (Inr (\<exists>d. fst (decryptText lib t k w) = Inr d \<and> d \<noteq> t), snd (decryptText lib t k w))"
  by (cases "decryptText lib t k w") (auto simp: isEncrypted_def io_defs split: sum.splits)

lemma isEncrypted_total: "\<exists>b w'. isEncrypted lib t k w = (Inr b, w')"
  by (cases "t = [] \<or> \<not> startsWith t ''U2F''") (auto simp: isEncrypted_no_prefix isEncrypted_prefix)

section \<open>C2: the detector\<close>

text \<open>
  Claim C2. \<^verbatim>\<open>isEncrypted\<close> never throws; it answers false when the text is empty or does not
  start with \<open>U2F\<close>, and otherwise answers true exactly when the decryption it attempts
  succeeds with a result different from the text (so every failure of that decryption gives
  false). The environment it leaves is the one that decryption leaves, and is untouched when
  no decryption is attempted.
\<close>

theorem isEncrypted_spec:
  "isEncrypted lib t k w =
     (Inr (t \<noteq> [] \<and> startsWith t ''U2F'' \<and> (\<exists>d. fst (decryptText lib t k w) = Inr d \<and> d \<noteq> t)),
      if t \<noteq> [] \<and> startsWith t ''U2F'' then snd (decryptText lib t k w) else w)"
  by (cases "t = [] \<or> \<not> startsWith t ''U2F''") (auto simp: isEncrypted_no_prefix isEncrypted_prefix)

section \<open>C5: the strict contract of decryption\<close>

text \<open>
  Claim C5. \<^verbatim>\<open>decryptText\<close> never returns the empty string: when the library's decryption
  gives an empty text, it throws the "empty" error; and an error thrown by the library, in the
  decryption or in the conversion to text, reaches the caller as it was thrown.
\<close>

theorem decryptText_strict:
  "fst (decryptText lib c k w) \<noteq> Inr [] \<and>
   (fst (CryptoJS_AES_decrypt lib c1 k1 w1) = Inr bytes1 \<and> Utf8_stringify lib bytes1 = Inr [] \<longrightarrow>
      fst (decryptText lib c1 k1 w1) = Inl DecryptionEmpty) \<and>
   (fst (CryptoJS_AES_decrypt lib c2 k2 w2) = Inl e2 \<longrightarrow> fst (decryptText lib c2 k2 w2) = Inl e2) \<and>
   (fst (CryptoJS_AES_decrypt lib c3 k3 w3) = Inr bytes3 \<and> Utf8_stringify lib bytes3 = Inl e3 \<longrightarrow>
      fst (decryptText lib c3 k3 w3) = Inl e3)"
  by (auto simp: decryptText_eq split: prod.splits sum.splits)

lemma next_salt_world0: "next_salt world0 = [0, 1, 2, 3, 4, 5, 6, 7]"
  by (simp add: next_salt_def world0_def upt_rec)

lemma empty_cipher_salted: "Salted shift_cipher empty_cipher"
  by (simp add: shift_cipher_def shift_salted_def startsWith_def empty_cipher_def)

lemma empty_cipher_decrypt: "AES_decrypt shift_cipher None empty_cipher ''key1'' = Inr []"
  by (simp add: shift_cipher_def shift_decrypt_def empty_cipher_def)

lemma shift_stringify_empty: "Utf8_stringify shift_cipher [] = Inr []"
  by (simp add: shift_cipher_def shift_stringify_def)

lemma bad_key_salted: "Salted shift_cipher hello_cipher"
  by (simp add: shift_cipher_def shift_salted_def startsWith_def hello_cipher_def)

lemma bad_key_decrypt:
  "AES_decrypt shift_cipher None hello_cipher [CHR 0xFF] = Inl (LibraryError ''URI malformed'')"
  by (simp add: shift_cipher_def shift_decrypt_def)

lemma no_text_salted: "Salted shift_cipher (''U2FsdGVkX1'' @ [CHR 0x00, CHR 0xFF])"
  by (simp add: shift_cipher_def shift_salted_def startsWith_def)

lemma no_text_decrypt:
  "AES_decrypt shift_cipher None (''U2FsdGVkX1'' @ [CHR 0x00, CHR 0xFF]) [] = Inr [255]"
  unfolding shift_cipher_def by code_simp

lemma no_text_stringify:
  "Utf8_stringify shift_cipher [255] = Inl (LibraryError ''Malformed UTF-8 data'')"
  by (simp add: shift_cipher_def shift_stringify_def)

theorem decryptText_strict_witness:
  "fst (CryptoJS_AES_decrypt shift_cipher empty_cipher ''key1'' world0) = Inr [] \<and>
   Utf8_stringify shift_cipher [] = Inr [] \<and>
   fst (decryptText shift_cipher empty_cipher ''key1'' world0) = Inl DecryptionEmpty \<and>
   fst (CryptoJS_AES_decrypt shift_cipher hello_cipher [CHR 0xFF] world0) =
     Inl (LibraryError ''URI malformed'') \<and>
   fst (decryptText shift_cipher hello_cipher [CHR 0xFF] world0) = Inl (LibraryError ''URI malformed'') \<and>
   fst (CryptoJS_AES_decrypt shift_cipher (''U2FsdGVkX1'' @ [CHR 0x00, CHR 0xFF]) [] world0) = Inr [255] \<and>
   Utf8_stringify shift_cipher [255] = Inl (LibraryError ''Malformed UTF-8 data'') \<and>
   fst (decryptText shift_cipher (''U2FsdGVkX1'' @ [CHR 0x00, CHR 0xFF]) [] world0) =
     Inl (LibraryError ''Malformed UTF-8 data'')"
proof -
  have h1: "fst (CryptoJS_AES_decrypt shift_cipher empty_cipher ''key1'' world0) = Inr []"
    by (simp add: CryptoJS_AES_decrypt_salted[OF empty_cipher_salted] empty_cipher_decrypt)
  have h2: "fst (CryptoJS_AES_decrypt shift_cipher hello_cipher [CHR 0xFF] world0) =
     Inl (LibraryError ''URI malformed'')"
    by (simp add: CryptoJS_AES_decrypt_salted[OF bad_key_salted] bad_key_decrypt)
  have h3: "fst (CryptoJS_AES_decrypt shift_cipher (''U2FsdGVkX1'' @ [CHR 0x00, CHR 0xFF]) [] world0) = Inr [255]"
    by (simp only: CryptoJS_AES_decrypt_salted[OF no_text_salted] no_text_decrypt fst_conv)
  show ?thesis
    using decryptText_strict[of shift_cipher "[]" "[]" world0 empty_cipher "''key1''" world0 "[]"
        hello_cipher "[CHR 0xFF]" world0 "LibraryError ''URI malformed''"
        "''U2FsdGVkX1'' @ [CHR 0x00, CHR 0xFF]" "[]" world0 "[255]"
        "LibraryError ''Malformed UTF-8 data''"]
      h1 h2 h3 shift_stringify_empty no_text_stringify
    by simp
qed

lemma round_trip_eq:
  "round_trip lib p k w =
     (case AES_encrypt lib (next_salt w) p k of
        Inl e \<Rightarrow> (Inl EncryptFailed, w\<lparr>drawn := drawn w + 8\<rparr>)
      | Inr c \<Rightarrow> decryptText lib c k (w\<lparr>drawn := drawn w + 8\<rparr>))"
  by (simp add: round_trip_def encryptText_eq io_defs split: sum.splits)


section \<open>C1: the round trip\<close>


lemma hello_cipher_eq:
  "AES_encrypt shift_cipher [0, 1, 2, 3, 4, 5, 6, 7] ''Hello World'' ''key1'' = Inr hello_cipher"
  unfolding shift_cipher_def hello_cipher_def by code_simp

lemma hello_cipher_salted: "Salted shift_cipher hello_cipher"
  by (simp add: shift_cipher_def shift_salted_def startsWith_def hello_cipher_def)

lemma hello_cipher_decrypt:
  "AES_decrypt shift_cipher None hello_cipher ''key1'' = Inr (map byte_of_char ''Hello World'')"
  unfolding shift_cipher_def hello_cipher_def by code_simp

lemma hello_stringify:
  "Utf8_stringify shift_cipher (map byte_of_char ''Hello World'') = Inr ''Hello World''"
  unfolding shift_cipher_def by code_simp

lemma decryptText_hello: "decryptText shift_cipher hello_cipher ''key1'' w = (Inr ''Hello World'', w)"
  using decryptText_salted[OF hello_cipher_salted hello_cipher_decrypt hello_stringify, of w] by simp

lemma round_trip_hello:
  "round_trip shift_cipher ''Hello World'' ''key1'' world0 = (Inr ''Hello World'', world0\<lparr>drawn := 8\<rparr>)"
  by (simp add: round_trip_eq next_salt_world0 hello_cipher_eq decryptText_hello) (simp add: world0_def)

lemma empty_cipher_eq:
  "AES_encrypt shift_cipher [0, 1, 2, 3, 4, 5, 6, 7] [] ''key1'' = Inr empty_cipher"
  unfolding shift_cipher_def empty_cipher_def by code_simp

lemma decryptText_empty_cipher:
  "decryptText shift_cipher empty_cipher ''key1'' w = (Inl DecryptionEmpty, w)"
  using decryptText_salted[OF empty_cipher_salted empty_cipher_decrypt shift_stringify_empty, of w]
  by simp


section \<open>The gateway, case by case\<close>

lemma encryptPrompt_cases:
  "encryptPrompt lib p w =
     (case generateLocalEncryptionKey w of
        (Inl e, w1) \<Rightarrow> (Inr p, w1)
      | (Inr key, w1) \<Rightarrow>
          (case isEncrypted lib (content p) key w1 of
             (Inl e, w2) \<Rightarrow> (Inr p, w2)
           | (Inr enc, w2) \<Rightarrow>
               if enc then (Inr p, w2)
               else (case encryptText lib (content p) key w2 of
                       (Inl e, w3) \<Rightarrow> (Inr p, w3)
                     | (Inr c, w3) \<Rightarrow> (Inr (p\<lparr>content := c\<rparr>), w3))))"
  by (simp add: encryptPrompt_def io_defs split: prod.splits sum.splits)

lemma decryptPrompt_cases:
  "decryptPrompt lib p w =
     (case generateLocalEncryptionKey w of
        (Inl e, w1) \<Rightarrow> (Inr p, w1)
      | (Inr key, w1) \<Rightarrow>
          (case isEncrypted lib (content p) key w1 of
             (Inl e, w2) \<Rightarrow> (Inr p, w2)
           | (Inr enc, w2) \<Rightarrow>
               if \<not> enc then (Inr p, w2)
               else (case decryptText lib (content p) key w2 of
                       (Inl e, w3) \<Rightarrow> (Inr p, w3)
                     | (Inr d, w3) \<Rightarrow> (Inr (p\<lparr>content := d\<rparr>), w3))))"
  by (simp add: decryptPrompt_def io_defs split: prod.splits sum.splits)

lemma decryptPromptOnDemand_cases:
  "decryptPromptOnDemand lib p w =
     (case generateLocalEncryptionKey w of
        (Inl e, w1) \<Rightarrow> (Inr (content p), w1)
      | (Inr key, w1) \<Rightarrow>
          (case isEncrypted lib (content p) key w1 of
             (Inl e, w2) \<Rightarrow> (Inr (content p), w2)
           | (Inr enc, w2) \<Rightarrow>
               if \<not> enc then (Inr (content p), w2)
               else (case decryptText lib (content p) key w2 of
                       (Inl e, w3) \<Rightarrow> (Inr (content p), w3)
                     | (Inr d, w3) \<Rightarrow> (Inr d, w3))))"
  by (simp add: decryptPromptOnDemand_def io_defs split: prod.splits sum.splits)

lemma encryptPrompt_total: "\<exists>r w'. encryptPrompt lib p w = (Inr r, w')"
  by (simp add: encryptPrompt_cases split: prod.splits sum.splits)

lemma decryptPrompt_total: "\<exists>r w'. decryptPrompt lib p w = (Inr r, w')"
  by (simp add: decryptPrompt_cases split: prod.splits sum.splits)

lemma decryptPromptOnDemand_total: "\<exists>s w'. decryptPromptOnDemand lib p w = (Inr s, w')"
  by (simp add: decryptPromptOnDemand_cases split: prod.splits sum.splits)

lemma isEncrypted_decrypt_fails:
  assumes "fst (decryptText lib t k w) = Inl e"
  shows "fst (isEncrypted lib t k w) = Inr False"
proof (cases "t = [] \<or> \<not> startsWith t ''U2F''")
  case True
  then show ?thesis by (simp add: isEncrypted_no_prefix)
next
  case False
  with assms show ?thesis by (simp add: isEncrypted_prefix)
qed

lemma encryptPrompt_frame: "\<exists>c w1. encryptPrompt lib p w = (Inr (p\<lparr>content := c\<rparr>), w1)"
proof -
  obtain r w1 where e: "encryptPrompt lib p w = (r, w1)" by (cases "encryptPrompt lib p w")
  then have "r = Inr p \<or> (\<exists>c. r = Inr (p\<lparr>content := c\<rparr>))"
    by (auto simp: encryptPrompt_cases split: prod.splits sum.splits if_splits)
  then show ?thesis
  proof
    assume "r = Inr p"
    with e have "encryptPrompt lib p w = (Inr (p\<lparr>content := content p\<rparr>), w1)" by simp
    then show ?thesis by blast
  next
    assume "\<exists>c. r = Inr (p\<lparr>content := c\<rparr>)"
    with e show ?thesis by blast
  qed
qed

section \<open>C4: the gateway never raises\<close>

text \<open>
  Claim C4. \<^verbatim>\<open>encryptPrompt\<close>, \<^verbatim>\<open>decryptPrompt\<close> and \<^verbatim>\<open>decryptPromptOnDemand\<close> always return
  a value. When the key lookup throws, or the encryption throws, or the content fails to
  decrypt under the active key, or the decryption that follows a positive answer of
  \<^verbatim>\<open>isEncrypted\<close> throws, \<^verbatim>\<open>encryptPrompt\<close> and \<^verbatim>\<open>decryptPrompt\<close> return the record they were
  given and \<^verbatim>\<open>decryptPromptOnDemand\<close> returns the stored content.
\<close>

theorem gateway_never_raises:
  "(\<exists>r w'. encryptPrompt lib p w = (Inr r, w')) \<and>
   (\<exists>r w'. decryptPrompt lib p w = (Inr r, w')) \<and>
   (\<exists>s w'. decryptPromptOnDemand lib p w = (Inr s, w')) \<and>
   (fst (generateLocalEncryptionKey v) = Inl e \<longrightarrow>
      fst (encryptPrompt lib a v) = Inr a \<and> fst (decryptPrompt lib a v) = Inr a \<and>
      fst (decryptPromptOnDemand lib a v) = Inr (content a)) \<and>
   (generateLocalEncryptionKey we = (Inr ke, we1) \<and>
    isEncrypted lib (content b) ke we1 = (Inr False, we2) \<and>
    fst (encryptText lib (content b) ke we2) = Inl e1 \<longrightarrow>
      fst (encryptPrompt lib b we) = Inr b) \<and>
   (generateLocalEncryptionKey wd = (Inr kd, wd1) \<and>
    fst (decryptText lib (content c) kd wd1) = Inl e2 \<longrightarrow>
      fst (decryptPrompt lib c wd) = Inr c \<and>
      fst (decryptPromptOnDemand lib c wd) = Inr (content c)) \<and>
   (generateLocalEncryptionKey wt = (Inr kt, wt1) \<and>
    isEncrypted lib (content q) kt wt1 = (Inr True, wt2) \<and>
    fst (decryptText lib (content q) kt wt2) = Inl e3 \<longrightarrow>
      fst (decryptPrompt lib q wt) = Inr q \<and>
      fst (decryptPromptOnDemand lib q wt) = Inr (content q))"
proof -
  have 4: "fst (encryptPrompt lib a v) = Inr a \<and> fst (decryptPrompt lib a v) = Inr a \<and>
      fst (decryptPromptOnDemand lib a v) = Inr (content a)"
    if "fst (generateLocalEncryptionKey v) = Inl e"
    using that
    by (cases "generateLocalEncryptionKey v")
       (simp add: encryptPrompt_cases decryptPrompt_cases decryptPromptOnDemand_cases)
  have 5: "fst (encryptPrompt lib b we) = Inr b"
    if "generateLocalEncryptionKey we = (Inr ke, we1)"
       "isEncrypted lib (content b) ke we1 = (Inr False, we2)"
       "fst (encryptText lib (content b) ke we2) = Inl e1"
    using that by (cases "encryptText lib (content b) ke we2") (simp add: encryptPrompt_cases)
  have 6: "fst (decryptPrompt lib c wd) = Inr c \<and>
      fst (decryptPromptOnDemand lib c wd) = Inr (content c)"
    if g: "generateLocalEncryptionKey wd = (Inr kd, wd1)"
       and d: "fst (decryptText lib (content c) kd wd1) = Inl e2"
  proof -
    from isEncrypted_decrypt_fails[OF d] obtain w2 where
      "isEncrypted lib (content c) kd wd1 = (Inr False, w2)"
      by (cases "isEncrypted lib (content c) kd wd1") auto
    with g show ?thesis by (simp add: decryptPrompt_cases decryptPromptOnDemand_cases)
  qed
  have 7: "fst (decryptPrompt lib q wt) = Inr q \<and>
      fst (decryptPromptOnDemand lib q wt) = Inr (content q)"
    if "generateLocalEncryptionKey wt = (Inr kt, wt1)"
       "isEncrypted lib (content q) kt wt1 = (Inr True, wt2)"
       "fst (decryptText lib (content q) kt wt2) = Inl e3"
    using that
    by (cases "decryptText lib (content q) kt wt2")
       (simp add: decryptPrompt_cases decryptPromptOnDemand_cases)
  from encryptPrompt_total[of lib p w] decryptPrompt_total[of lib p w]
    decryptPromptOnDemand_total[of lib p w] 4 5 6 7
  show ?thesis by blast
qed

lemma generate_world_ssr: "generateLocalEncryptionKey world_ssr = (Inl ReferenceError, world_ssr)"
  by (simp add: generate_unavailable world_ssr_def)

lemma generate_key1:
  "localStorage w = Some [KEY_SLOT \<mapsto> ''key1''] \<Longrightarrow> generateLocalEncryptionKey w = (Inr ''key1'', w)"
  by (rule generate_stored[where m = "[KEY_SLOT \<mapsto> ''key1'']"]) simp_all

lemma generate_world_key1: "generateLocalEncryptionKey world_key1 = (Inr ''key1'', world_key1)"
  by (rule generate_key1) (simp add: world_key1_def)

lemma next_salt_0:
  "entropy w = (\<lambda>n. of_nat n) \<Longrightarrow> drawn w = 0 \<Longrightarrow> next_salt w = [0, 1, 2, 3, 4, 5, 6, 7]"
  by (simp add: next_salt_def upt_rec)

lemma next_salt_8:
  "entropy w = (\<lambda>n. of_nat n) \<Longrightarrow> drawn w = 8 \<Longrightarrow> next_salt w = [8, 9, 10, 11, 12, 13, 14, 15]"
  by (simp add: next_salt_def upt_rec)

lemma next_salt_world_key1: "next_salt world_key1 = [0, 1, 2, 3, 4, 5, 6, 7]"
  by (rule next_salt_0) (simp_all add: world_key1_def world0_def)

lemma next_salt_world_key1_8:
  "next_salt (world_key1\<lparr>drawn := 8\<rparr>) = [8, 9, 10, 11, 12, 13, 14, 15]"
  by (rule next_salt_8) (simp_all add: world_key1_def world0_def)

lemma unsalted_text_prefix: "unsalted_text \<noteq> [] \<and> startsWith unsalted_text ''U2F''"
  by (simp add: unsalted_text_def startsWith_def)

lemma unsalted_text_unsalted: "\<not> Salted shift_cipher unsalted_text"
  by (simp add: shift_cipher_def shift_salted_def startsWith_def unsalted_text_def)

lemma unsalted_decrypt_0:
  "AES_decrypt shift_cipher (Some [0, 1, 2, 3, 4, 5, 6, 7]) unsalted_text ''key1'' =
     Inr [0xBF, 0x9C, 0xB0, 0x3F]"
  unfolding shift_cipher_def unsalted_text_def by code_simp

lemma unsalted_stringify_0:
  "Utf8_stringify shift_cipher [0xBF, 0x9C, 0xB0, 0x3F] = Inr [CHR 0xBF, CHR 0x9C, CHR 0xB0, CHR 0x3F]"
  unfolding shift_cipher_def by code_simp

lemma unsalted_decrypt_8:
  "AES_decrypt shift_cipher (Some [8, 9, 10, 11, 12, 13, 14, 15]) unsalted_text ''key1'' =
     Inr [0x7F, 0x5C, 0x70, 0xFF]"
  unfolding shift_cipher_def unsalted_text_def by code_simp

lemma unsalted_stringify_8:
  "Utf8_stringify shift_cipher [0x7F, 0x5C, 0x70, 0xFF] = Inl (LibraryError ''Malformed UTF-8 data'')"
  unfolding shift_cipher_def by code_simp

lemma decryptText_unsalted_0:
  "decryptText shift_cipher unsalted_text ''key1'' world_key1 =
     (Inr [CHR 0xBF, CHR 0x9C, CHR 0xB0, CHR 0x3F], world_key1\<lparr>drawn := 8\<rparr>)"
proof -
  have "decryptText shift_cipher unsalted_text ''key1'' world_key1 =
     (Inr [CHR 0xBF, CHR 0x9C, CHR 0xB0, CHR 0x3F], world_key1\<lparr>drawn := drawn world_key1 + 8\<rparr>)"
    using decryptText_unsalted[OF unsalted_text_unsalted, of world_key1 "''key1''",
        OF _ unsalted_stringify_0] unsalted_decrypt_0
    by (simp add: next_salt_world_key1)
  then show ?thesis by (simp add: world_key1_def world0_def)
qed

lemma decryptText_unsalted_8:
  "fst (decryptText shift_cipher unsalted_text ''key1'' (world_key1\<lparr>drawn := 8\<rparr>)) =
     Inl (LibraryError ''Malformed UTF-8 data'')"
  using decryptText_unsalted[OF unsalted_text_unsalted, of "world_key1\<lparr>drawn := 8\<rparr>" "''key1''",
      OF _ unsalted_stringify_8] unsalted_decrypt_8
  by (simp add: next_salt_world_key1_8)

lemma isEncrypted_unsalted_0:
  "isEncrypted shift_cipher unsalted_text ''key1'' world_key1 = (Inr True, world_key1\<lparr>drawn := 8\<rparr>)"
  using unsalted_text_prefix
  by (simp add: isEncrypted_prefix decryptText_unsalted_0) (simp add: unsalted_text_def)

lemma bad_text_encrypt:
  "fst (encryptText shift_cipher bad_text k w) = Inl EncryptFailed"
  by (simp add: encryptText_eq shift_cipher_def shift_encrypt_def bad_text_def)

lemma bad_text_plain: "isEncrypted shift_cipher bad_text k w = (Inr False, w)"
  by (rule isEncrypted_no_prefix) (simp add: bad_text_def startsWith_def)

theorem gateway_never_raises_witness:
  "fst (generateLocalEncryptionKey world_ssr) = Inl ReferenceError \<and>
   generateLocalEncryptionKey world_key1 = (Inr ''key1'', world_key1) \<and>
   isEncrypted shift_cipher bad_text ''key1'' world_key1 = (Inr False, world_key1) \<and>
   fst (encryptText shift_cipher bad_text ''key1'' world_key1) = Inl EncryptFailed \<and>
   fst (decryptText shift_cipher empty_cipher ''key1'' world_key1) = Inl DecryptionEmpty \<and>
   isEncrypted shift_cipher unsalted_text ''key1'' world_key1 = (Inr True, world_key1\<lparr>drawn := 8\<rparr>) \<and>
   fst (decryptText shift_cipher unsalted_text ''key1'' (world_key1\<lparr>drawn := 8\<rparr>)) =
     Inl (LibraryError ''Malformed UTF-8 data'') \<and>
   fst (encryptPrompt shift_cipher prompt0 world_ssr) = Inr prompt0 \<and>
   fst (decryptPrompt shift_cipher prompt0 world_ssr) = Inr prompt0 \<and>
   fst (decryptPromptOnDemand shift_cipher prompt0 world_ssr) = Inr ''Hello World'' \<and>
   fst (encryptPrompt shift_cipher (prompt0\<lparr>content := bad_text\<rparr>) world_key1) =
     Inr (prompt0\<lparr>content := bad_text\<rparr>) \<and>
   fst (decryptPrompt shift_cipher (prompt0\<lparr>content := empty_cipher\<rparr>) world_key1) =
     Inr (prompt0\<lparr>content := empty_cipher\<rparr>) \<and>
   fst (decryptPromptOnDemand shift_cipher (prompt0\<lparr>content := empty_cipher\<rparr>) world_key1) =
     Inr empty_cipher \<and>
   fst (decryptPrompt shift_cipher (prompt0\<lparr>content := unsalted_text\<rparr>) world_key1) =
     Inr (prompt0\<lparr>content := unsalted_text\<rparr>) \<and>
   fst (decryptPromptOnDemand shift_cipher (prompt0\<lparr>content := unsalted_text\<rparr>) world_key1) =
     Inr unsalted_text"
proof -
  have c: "content prompt0 = ''Hello World''" by (simp add: prompt0_def)
  have d: "fst (decryptText shift_cipher empty_cipher ''key1'' world_key1) = Inl DecryptionEmpty"
    by (simp add: decryptText_empty_cipher)
  show ?thesis
    using gateway_never_raises[of shift_cipher prompt0 world0 world_ssr ReferenceError prompt0
        world_key1 "''key1''" world_key1 "prompt0\<lparr>content := bad_text\<rparr>" world_key1 EncryptFailed
        world_key1 "''key1''" world_key1 "prompt0\<lparr>content := empty_cipher\<rparr>" DecryptionEmpty
        world_key1 "''key1''" world_key1 "prompt0\<lparr>content := unsalted_text\<rparr>"
        "world_key1\<lparr>drawn := 8\<rparr>" "LibraryError ''Malformed UTF-8 data''"]
      generate_world_ssr generate_world_key1 bad_text_plain[of "''key1''" world_key1]
      bad_text_encrypt[of "''key1''" world_key1] d isEncrypted_unsalted_0 decryptText_unsalted_8 c
    by simp
qed

lemma decryptPrompts_loop_eq:
  "\<exists>rs. decryptPrompts_loop lib ps acc w = (Inr (acc @ rs), env_after lib ps w) \<and>
        map Inr rs = decrypted_in_turn lib ps w"
proof (induction ps arbitrary: acc w)
  case Nil
  show ?case by (simp add: env_after_def)
next
  case (Cons p ps)
  from decryptPrompt_total obtain r w1 where d: "decryptPrompt lib p w = (Inr r, w1)" by blast
  from Cons.IH[of "acc @ [r]" w1] obtain rs where
    rs: "decryptPrompts_loop lib ps (acc @ [r]) w1 = (Inr ((acc @ [r]) @ rs), env_after lib ps w1)"
        "map Inr rs = decrypted_in_turn lib ps w1" by blast
  have "decryptPrompts_loop lib (p # ps) acc w = (Inr (acc @ (r # rs)), env_after lib (p # ps) w)"
    using d rs(1) by (simp add: env_after_def)
  moreover have "map Inr (r # rs) = decrypted_in_turn lib (p # ps) w"
    using d rs(2) by simp
  ultimately show ?case by blast
qed

lemma decrypted_in_turn_index:
  "decrypted_in_turn lib ps w =
     map (\<lambda>i. fst (decryptPrompt lib (ps ! i) (env_after lib (take i ps) w))) [0..<length ps]"
proof (induction ps arbitrary: w)
  case Nil
  show ?case by simp
next
  case (Cons p ps)
  have "[0..<Suc (length ps)] = 0 # [Suc 0..<Suc (length ps)]"
    by (rule upt_conv_Cons) simp
  then have u: "[0..<Suc (length ps)] = 0 # map Suc [0..<length ps]"
    by (simp only: map_Suc_upt)
  show ?case
    by (simp add: u Cons.IH env_after_def comp_def del: upt_Suc)
qed

section \<open>C7: decrypting a list\<close>

text \<open>
  Claim C7. \<^verbatim>\<open>decryptPrompts\<close> returns a list as long as its input whose element at each
  position \<open>i\<close> is the result of \<^verbatim>\<open>decryptPrompt\<close> on the input's element at \<open>i\<close>, run in the
  environment that the calls on the elements before \<open>i\<close> have left; it leaves the environment
  that the call on the last element leaves.
\<close>

theorem decryptPrompts_maps_decryptPrompt:
  "\<exists>rs. decryptPrompts lib ps w = (Inr rs, env_after lib ps w) \<and> length rs = length ps \<and>
        map Inr rs =
          map (\<lambda>i. fst (decryptPrompt lib (ps ! i) (env_after lib (take i ps) w))) [0..<length ps]"
proof -
  from decryptPrompts_loop_eq[of lib ps "[]" w] obtain rs where
    rs: "decryptPrompts lib ps w = (Inr rs, env_after lib ps w)"
        "map Inr rs = decrypted_in_turn lib ps w"
    by (auto simp: decryptPrompts_def)
  from rs(2) have m: "map Inr rs =
      map (\<lambda>i. fst (decryptPrompt lib (ps ! i) (env_after lib (take i ps) w))) [0..<length ps]"
    by (simp add: decrypted_in_turn_index)
  then have "length (map Inr rs :: (error + prompt) list) = length [0..<length ps]"
    by (simp only: length_map)
  then have "length rs = length ps" by simp
  with rs(1) m show ?thesis by blast
qed

section \<open>C3: encrypting twice\<close>

lemma twice_cipher_eq:
  "AES_encrypt shift_cipher [8, 9, 10, 11, 12, 13, 14, 15] empty_cipher ''key1'' = Inr twice_cipher"
  unfolding shift_cipher_def empty_cipher_def twice_cipher_def by code_simp

lemma encryptPrompt_empty_first:
  "encryptPrompt shift_cipher (prompt0\<lparr>content := []\<rparr>) world_key1 =
     (Inr (prompt0\<lparr>content := empty_cipher\<rparr>), world_key1\<lparr>drawn := 8\<rparr>)"
proof -
  have "encryptText shift_cipher [] ''key1'' world_key1 = (Inr empty_cipher, world_key1\<lparr>drawn := drawn world_key1 + 8\<rparr>)"
    by (simp add: encryptText_eq next_salt_world_key1 empty_cipher_eq)
  then have e: "encryptText shift_cipher [] ''key1'' world_key1 = (Inr empty_cipher, world_key1\<lparr>drawn := 8\<rparr>)"
    by (simp add: world_key1_def world0_def)
  show ?thesis
    by (simp add: encryptPrompt_cases generate_world_key1 isEncrypted_no_prefix e)
qed

lemma encryptPrompt_empty_second:
  "encryptPrompt shift_cipher (prompt0\<lparr>content := empty_cipher\<rparr>) (world_key1\<lparr>drawn := 8\<rparr>) =
     (Inr (prompt0\<lparr>content := twice_cipher\<rparr>), world_key1\<lparr>drawn := 16\<rparr>)"
proof -
  let ?w = "world_key1\<lparr>drawn := 8\<rparr>"
  have g: "generateLocalEncryptionKey ?w = (Inr ''key1'', ?w)"
    by (rule generate_key1) (simp add: world_key1_def)
  have p: "empty_cipher \<noteq> []" "startsWith empty_cipher ''U2F''"
    by (simp_all add: empty_cipher_def startsWith_def)
  have i: "isEncrypted shift_cipher empty_cipher ''key1'' ?w = (Inr False, ?w)"
    using p by (simp add: isEncrypted_prefix decryptText_empty_cipher)
  have "encryptText shift_cipher empty_cipher ''key1'' ?w = (Inr twice_cipher, ?w\<lparr>drawn := drawn ?w + 8\<rparr>)"
    by (simp add: encryptText_eq next_salt_world_key1_8 twice_cipher_eq)
  then have e: "encryptText shift_cipher empty_cipher ''key1'' ?w = (Inr twice_cipher, world_key1\<lparr>drawn := 16\<rparr>)"
    by simp
  show ?thesis
    by (simp add: encryptPrompt_cases g i e)
qed

text \<open>
  Claim C3, on a record with empty content and a key in the key slot. The first
  \<^verbatim>\<open>encryptPrompt\<close> replaces the empty content by its ciphertext. The second does not return
  that record: the ciphertext decrypts to the empty text, which \<^verbatim>\<open>decryptText\<close> throws as an
  error, so \<^verbatim>\<open>isEncrypted\<close> answers false and the ciphertext is encrypted again.
\<close>

theorem encryptPrompt_empty_rewrapped:
  "encryptPrompt shift_cipher (prompt0\<lparr>content := []\<rparr>) world_key1 =
     (Inr (prompt0\<lparr>content := empty_cipher\<rparr>), world_key1\<lparr>drawn := 8\<rparr>) \<and>
   encryptPrompt shift_cipher (prompt0\<lparr>content := empty_cipher\<rparr>) (world_key1\<lparr>drawn := 8\<rparr>) =
     (Inr (prompt0\<lparr>content := twice_cipher\<rparr>), world_key1\<lparr>drawn := 16\<rparr>) \<and>
   prompt0\<lparr>content := twice_cipher\<rparr> \<noteq> prompt0\<lparr>content := empty_cipher\<rparr>"
proof -
  have "twice_cipher \<noteq> empty_cipher" by (simp add: twice_cipher_def empty_cipher_def)
  then have "content (prompt0\<lparr>content := twice_cipher\<rparr>) \<noteq> content (prompt0\<lparr>content := empty_cipher\<rparr>)"
    by simp
  then have "prompt0\<lparr>content := twice_cipher\<rparr> \<noteq> prompt0\<lparr>content := empty_cipher\<rparr>" by metis
  with encryptPrompt_empty_first encryptPrompt_empty_second show ?thesis by simp
qed

section \<open>C9: copying a prompt\<close>

lemma getPromptById_missing:
  "find (\<lambda>p. prompt_id p = Some i) (prompts w) = None \<Longrightarrow>
   getPromptById lib i d w = (Inr None, w)"
  by (simp add: getPromptById_def dbOperations_getById_prompt_def io_defs)

lemma getPromptById_decrypt:
  "find (\<lambda>p. prompt_id p = Some i) (prompts w) = Some orig \<Longrightarrow>
   decryptPrompt lib orig w = (Inr d, w1) \<Longrightarrow>
   getPromptById lib i True w = (Inr (Some d), w1)"
  by (simp add: getPromptById_def dbOperations_getById_prompt_def io_defs)

lemma copyPrompt_found:
  "getPromptById lib i True w = (Inr (Some d), w1) \<Longrightarrow>
   copyPrompt lib i w = addPrompt lib (newPromptData d (clock w1) (clock w1)) w1"
  by (simp add: copyPrompt_def io_defs now_def)

lemma decryptPrompt_salted:
  assumes "fst (generateLocalEncryptionKey v) = Inr k" "startsWith c ''U2F''" "Salted lib c"
    "AES_decrypt lib None c k = Inr bytes" "Utf8_stringify lib bytes = Inr q" "q \<noteq> []" "q \<noteq> c"
    "content p = c"
  shows "fst (decryptPrompt lib p v) = Inr (p\<lparr>content := q\<rparr>)"
proof -
  from assms(1) obtain v1 where g: "generateLocalEncryptionKey v = (Inr k, v1)"
    by (cases "generateLocalEncryptionKey v") auto
  have d: "decryptText lib c k v1 = (Inr q, v1)"
    using decryptText_salted[OF assms(3,4,5), of v1] assms(6) by simp
  from assms(2) have ne: "c \<noteq> []" by (auto simp: startsWith_def)
  have i: "isEncrypted lib c k v1 = (Inr True, v1)"
    using ne assms(2,7) by (simp add: isEncrypted_prefix d)
  show ?thesis using g i d assms(8) by (simp add: decryptPrompt_cases)
qed

text \<open>
  Claim C9. \<^verbatim>\<open>copyPrompt\<close> throws when the store has no prompt with the identifier. Otherwise
  it fetches the prompt through \<^verbatim>\<open>getPromptById\<close> with decryption, which returns what
  \<^verbatim>\<open>decryptPrompt\<close> makes of the stored record, and hands \<^verbatim>\<open>addPrompt\<close> a new record whose
  content is the content of that decrypted record: the plaintext, whenever the stored content
  carries the salted header and the library decrypts it under the active key to a non-empty
  text.
\<close>

theorem copyPrompt_uses_decrypted_content:
  "(find (\<lambda>p. prompt_id p = Some i) (prompts w) = None \<longrightarrow>
      copyPrompt lib i w = (Inl PromptNotFound, w)) \<and>
   (find (\<lambda>p. prompt_id p = Some j) (prompts v) = Some orig \<longrightarrow>
      (\<exists>d v1. getPromptById lib j True v = (Inr (Some d), v1) \<and>
         decryptPrompt lib orig v = (Inr d, v1) \<and>
         copyPrompt lib j v = addPrompt lib (newPromptData d (clock v1) (clock v1)) v1 \<and>
         content (newPromptData d (clock v1) (clock v1)) = content d \<and>
         (fst (generateLocalEncryptionKey v) = Inr k \<and> startsWith (content orig) ''U2F'' \<and>
          Salted lib (content orig) \<and> AES_decrypt lib None (content orig) k = Inr bytes \<and>
          Utf8_stringify lib bytes = Inr q \<and> q \<noteq> [] \<and> q \<noteq> content orig \<longrightarrow> content d = q)))"
proof -
  have 1: "copyPrompt lib i w = (Inl PromptNotFound, w)"
    if "find (\<lambda>p. prompt_id p = Some i) (prompts w) = None"
    using getPromptById_missing[OF that, of lib True] by (simp add: copyPrompt_def io_defs)
  have 2: "\<exists>d v1. getPromptById lib j True v = (Inr (Some d), v1) \<and>
         decryptPrompt lib orig v = (Inr d, v1) \<and>
         copyPrompt lib j v = addPrompt lib (newPromptData d (clock v1) (clock v1)) v1 \<and>
         content (newPromptData d (clock v1) (clock v1)) = content d \<and>
         (fst (generateLocalEncryptionKey v) = Inr k \<and> startsWith (content orig) ''U2F'' \<and>
          Salted lib (content orig) \<and> AES_decrypt lib None (content orig) k = Inr bytes \<and>
          Utf8_stringify lib bytes = Inr q \<and> q \<noteq> [] \<and> q \<noteq> content orig \<longrightarrow> content d = q)"
    if f: "find (\<lambda>p. prompt_id p = Some j) (prompts v) = Some orig"
  proof -
    from decryptPrompt_total obtain d v1 where b: "decryptPrompt lib orig v = (Inr d, v1)" by blast
    have a: "getPromptById lib j True v = (Inr (Some d), v1)" by (rule getPromptById_decrypt[OF f b])
    have c: "copyPrompt lib j v = addPrompt lib (newPromptData d (clock v1) (clock v1)) v1"
      by (rule copyPrompt_found[OF a])
    have n: "content (newPromptData d (clock v1) (clock v1)) = content d"
      by (simp add: newPromptData_def)
    have e: "content d = q"
      if "fst (generateLocalEncryptionKey v) = Inr k" "startsWith (content orig) ''U2F''"
         "Salted lib (content orig)" "AES_decrypt lib None (content orig) k = Inr bytes"
         "Utf8_stringify lib bytes = Inr q" "q \<noteq> []" "q \<noteq> content orig"
      using decryptPrompt_salted[OF that refl] b by simp
    from a b c n e show ?thesis by blast
  qed
  from 1 2 show ?thesis by blast
qed

lemma find_world_db:
  "find (\<lambda>p. prompt_id p = Some ''7'') (prompts world_db) = Some (prompt0\<lparr>content := hello_cipher\<rparr>)"
  by (simp add: world_db_def prompt0_def)

lemma find_world0: "find (\<lambda>p. prompt_id p = Some ''7'') (prompts world0) = None"
  by (simp add: world0_def)

lemma generate_world_db: "generateLocalEncryptionKey world_db = (Inr ''key1'', world_db)"
  by (rule generate_key1) (simp add: world_db_def world_key1_def)

lemma hello_cipher_facts:
  "startsWith hello_cipher ''U2F''" "''Hello World'' \<noteq> hello_cipher"
  by (simp_all add: hello_cipher_def startsWith_def)

theorem copyPrompt_uses_decrypted_content_witness:
  "find (\<lambda>p. prompt_id p = Some ''7'') (prompts world0) = None \<and>
   find (\<lambda>p. prompt_id p = Some ''7'') (prompts world_db) = Some (prompt0\<lparr>content := hello_cipher\<rparr>) \<and>
   fst (generateLocalEncryptionKey world_db) = Inr ''key1'' \<and>
   startsWith (content (prompt0\<lparr>content := hello_cipher\<rparr>)) ''U2F'' \<and>
   Salted shift_cipher (content (prompt0\<lparr>content := hello_cipher\<rparr>)) \<and>
   AES_decrypt shift_cipher None (content (prompt0\<lparr>content := hello_cipher\<rparr>)) ''key1'' =
     Inr (map byte_of_char ''Hello World'') \<and>
   Utf8_stringify shift_cipher (map byte_of_char ''Hello World'') = Inr ''Hello World'' \<and>
   copyPrompt shift_cipher ''7'' world0 = (Inl PromptNotFound, world0) \<and>
   (\<exists>d v1. getPromptById shift_cipher ''7'' True world_db = (Inr (Some d), v1) \<and>
      copyPrompt shift_cipher ''7'' world_db =
        addPrompt shift_cipher (newPromptData d (clock v1) (clock v1)) v1 \<and>
      content (newPromptData d (clock v1) (clock v1)) = ''Hello World'')"
proof -
  have g: "fst (generateLocalEncryptionKey world_db) = Inr ''key1''" by (simp add: generate_world_db)
  have h: "startsWith (content (prompt0\<lparr>content := hello_cipher\<rparr>)) ''U2F''"
    "Salted shift_cipher (content (prompt0\<lparr>content := hello_cipher\<rparr>))"
    "AES_decrypt shift_cipher None (content (prompt0\<lparr>content := hello_cipher\<rparr>)) ''key1'' =
       Inr (map byte_of_char ''Hello World'')"
    "''Hello World'' \<noteq> content (prompt0\<lparr>content := hello_cipher\<rparr>)"
    using hello_cipher_facts hello_cipher_salted hello_cipher_decrypt by simp_all
  have ne: "''Hello World'' \<noteq> []" by simp
  from copyPrompt_uses_decrypted_content[of "''7''" world0 shift_cipher "''7''" world_db
      "prompt0\<lparr>content := hello_cipher\<rparr>" "''key1''" "map byte_of_char ''Hello World''" "''Hello World''"]
    find_world0 find_world_db g h hello_stringify ne
  show ?thesis by (simp only: simp_thms) metis
qed

section \<open>C6: updating a prompt\<close>

lemma updatePrompt_eq:
  assumes "prompt_id p = Some i" "i \<noteq> []" "encryptPrompt lib p w = (Inr enc, w1)"
  shows "updatePrompt lib p w = dbOperations_update_prompt (enc\<lparr>prompt_id := Some i\<rparr>) w1"
  using assms by (simp add: updatePrompt_def io_defs)

lemma update_stores:
  "snd (dbOperations_update_prompt a w) = w' \<Longrightarrow> a \<in> set (prompts w') \<and>
   (\<forall>r \<in> set (prompts w'). prompt_id r = prompt_id a \<longrightarrow> r = a)"
  by (auto simp: dbOperations_update_prompt_def list_ex_iff split: if_splits)

lemma prompt_id_update_same: "prompt_id p = Some i \<Longrightarrow> p\<lparr>prompt_id := Some i\<rparr> = p"
  by (cases p) simp

lemma encryptPrompt_hello_db:
  "encryptPrompt shift_cipher prompt0 world_db =
     (Inr (prompt0\<lparr>content := hello_cipher\<rparr>), world_db\<lparr>drawn := 8\<rparr>)"
proof -
  have c: "content prompt0 = ''Hello World''" by (simp add: prompt0_def)
  have b: "isEncrypted shift_cipher ''Hello World'' ''key1'' world_db = (Inr False, world_db)"
    by (rule isEncrypted_no_prefix) (simp add: startsWith_def)
  have s: "next_salt world_db = [0, 1, 2, 3, 4, 5, 6, 7]"
    by (rule next_salt_0) (simp_all add: world_db_def world_key1_def world0_def)
  have "encryptText shift_cipher ''Hello World'' ''key1'' world_db =
      (Inr hello_cipher, world_db\<lparr>drawn := drawn world_db + 8\<rparr>)"
    by (simp add: encryptText_eq s hello_cipher_eq)
  then have e: "encryptText shift_cipher ''Hello World'' ''key1'' world_db =
      (Inr hello_cipher, world_db\<lparr>drawn := 8\<rparr>)"
    by (simp add: world_db_def world_key1_def world0_def)
  show ?thesis
    by (simp add: encryptPrompt_cases generate_world_db c b e)
qed

text \<open>
  Claim C6, amended. \<^verbatim>\<open>updatePrompt\<close> removes nothing: the object it hands to the store's
  update is its argument with the content possibly encrypted, so it carries the argument's
  \<^verbatim>\<open>isPublic\<close> and every other field. The field is dropped earlier, by the save handler of
  the prompt page: after \<^verbatim>\<open>onSave\<close> the store holds the prompt without \<^verbatim>\<open>isPublic\<close> and with
  the time of the save.
\<close>

theorem updatePrompt_keeps_isPublic:
  assumes "prompt_id p = Some i" and "i \<noteq> []"
  shows "(\<exists>c w1 arg. encryptPrompt lib p w = (Inr (p\<lparr>content := c\<rparr>), w1) \<and> arg = p\<lparr>content := c\<rparr> \<and>
            updatePrompt lib p w = dbOperations_update_prompt arg w1 \<and>
            isPublic arg = isPublic p \<and> arg\<lparr>content := content p\<rparr> = p \<and>
            arg \<in> set (prompts (snd (updatePrompt lib p w)))) \<and>
         list_ex (\<lambda>r. prompt_id r = Some i) (prompts (snd (onSave lib (Some p) w))) \<and>
         (\<forall>r \<in> set (prompts (snd (onSave lib (Some p) w))).
            prompt_id r = Some i \<longrightarrow> isPublic r = None \<and> updatedAt r = clock w)"
proof -
  from encryptPrompt_frame[of lib p w] obtain c w1 where
    e: "encryptPrompt lib p w = (Inr (p\<lparr>content := c\<rparr>), w1)" by blast
  let ?arg = "p\<lparr>content := c\<rparr>"
  have "?arg\<lparr>prompt_id := Some i\<rparr> = ?arg"
    using assms(1) by (simp add: prompt_id_update_same)
  then have u: "updatePrompt lib p w = dbOperations_update_prompt ?arg w1"
    using updatePrompt_eq[OF assms e] by simp
  have s: "?arg \<in> set (prompts (snd (updatePrompt lib p w)))"
    using update_stores[of ?arg w1] u by simp
  have A: "\<exists>c w1 arg. encryptPrompt lib p w = (Inr (p\<lparr>content := c\<rparr>), w1) \<and> arg = p\<lparr>content := c\<rparr> \<and>
            updatePrompt lib p w = dbOperations_update_prompt arg w1 \<and>
            isPublic arg = isPublic p \<and> arg\<lparr>content := content p\<rparr> = p \<and>
            arg \<in> set (prompts (snd (updatePrompt lib p w)))"
    using e u s by auto
  let ?d = "p\<lparr>isPublic := None, updatedAt := clock w\<rparr>"
  from encryptPrompt_frame[of lib ?d w] obtain c2 w2 where
    e2: "encryptPrompt lib ?d w = (Inr (?d\<lparr>content := c2\<rparr>), w2)" by blast
  let ?a2 = "?d\<lparr>content := c2\<rparr>"
  have i2: "prompt_id ?d = Some i" using assms(1) by simp
  have "?a2\<lparr>prompt_id := Some i\<rparr> = ?a2"
    using assms(1) by (simp add: prompt_id_update_same)
  then have u2: "updatePrompt lib ?d w = dbOperations_update_prompt ?a2 w2"
    using updatePrompt_eq[OF i2 assms(2) e2] by simp
  have o: "snd (onSave lib (Some p) w) = snd (dbOperations_update_prompt ?a2 w2)"
    using assms u2
    by (cases "dbOperations_update_prompt ?a2 w2")
       (auto simp: onSave_def io_defs now_def Let_def split: sum.splits)
  from update_stores[OF o[symmetric]] assms(1)
  have st: "?a2 \<in> set (prompts (snd (onSave lib (Some p) w)))"
    and un: "\<forall>r \<in> set (prompts (snd (onSave lib (Some p) w))). prompt_id r = Some i \<longrightarrow> r = ?a2"
    by simp_all
  from st assms(1) have B1: "list_ex (\<lambda>r. prompt_id r = Some i) (prompts (snd (onSave lib (Some p) w)))"
    unfolding list_ex_iff by (intro bexI[of _ ?a2]) simp_all
  have B2: "\<forall>r \<in> set (prompts (snd (onSave lib (Some p) w))).
            prompt_id r = Some i \<longrightarrow> isPublic r = None \<and> updatedAt r = clock w"
  proof (intro ballI impI)
    fix r assume "r \<in> set (prompts (snd (onSave lib (Some p) w)))" "prompt_id r = Some i"
    with un have "r = ?a2" by blast
    then show "isPublic r = None \<and> updatedAt r = clock w" by simp
  qed
  from A B1 B2 show ?thesis by blast
qed

theorem updatePrompt_keeps_isPublic_witness:
  "prompt_id prompt0 = Some ''7'' \<and> ''7'' \<noteq> [] \<and>
   (\<exists>arg w1. updatePrompt shift_cipher prompt0 world_db = dbOperations_update_prompt arg w1 \<and>
      isPublic arg = Some True \<and> arg\<lparr>content := ''Hello World''\<rparr> = prompt0) \<and>
   list_ex (\<lambda>r. prompt_id r = Some ''7'' \<and> isPublic r = None)
     (prompts (snd (onSave shift_cipher (Some prompt0) world_db)))"
proof -
  let ?S = "snd (onSave shift_cipher (Some prompt0) world_db)"
  have a: "prompt_id prompt0 = Some ''7''" by (simp add: prompt0_def)
  have b: "''7'' \<noteq> []" by simp
  have c: "isPublic prompt0 = Some True" "content prompt0 = ''Hello World''" by (simp_all add: prompt0_def)
  note t = updatePrompt_keeps_isPublic[OF a b, of shift_cipher world_db]
  from t obtain arg w1 where
    1: "updatePrompt shift_cipher prompt0 world_db = dbOperations_update_prompt arg w1"
       "isPublic arg = isPublic prompt0" "arg\<lparr>content := content prompt0\<rparr> = prompt0"
    by blast
  from t have 2: "list_ex (\<lambda>r. prompt_id r = Some ''7'') (prompts ?S)"
    by blast
  from t have 3: "\<forall>r \<in> set (prompts ?S). prompt_id r = Some ''7'' \<longrightarrow>
                    isPublic r = None \<and> updatedAt r = clock world_db"
    by blast
  from 2 3 have 4: "list_ex (\<lambda>r. prompt_id r = Some ''7'' \<and> isPublic r = None) (prompts ?S)"
    unfolding list_ex_iff by blast
  from a 1 4 c show ?thesis by auto
qed

theorem updatePrompt_isPublic_counterexample:
  "updatePrompt shift_cipher prompt0 world_db =
     dbOperations_update_prompt (prompt0\<lparr>content := hello_cipher\<rparr>) (world_db\<lparr>drawn := 8\<rparr>) \<and>
   isPublic (prompt0\<lparr>content := hello_cipher\<rparr>) = Some True \<and>
   map isPublic (prompts (snd (updatePrompt shift_cipher prompt0 world_db))) = [Some True]"
proof -
  have a: "prompt_id prompt0 = Some ''7''" by (simp add: prompt0_def)
  have "(prompt0\<lparr>content := hello_cipher\<rparr>)\<lparr>prompt_id := Some ''7''\<rparr> = prompt0\<lparr>content := hello_cipher\<rparr>"
    using a by (simp add: prompt_id_update_same)
  then have u: "updatePrompt shift_cipher prompt0 world_db =
     dbOperations_update_prompt (prompt0\<lparr>content := hello_cipher\<rparr>) (world_db\<lparr>drawn := 8\<rparr>)"
    using updatePrompt_eq[OF a _ encryptPrompt_hello_db] by simp
  have "map isPublic (prompts (snd (dbOperations_update_prompt (prompt0\<lparr>content := hello_cipher\<rparr>)
          (world_db\<lparr>drawn := 8\<rparr>)))) = [Some True]"
    by (simp add: dbOperations_update_prompt_def world_db_def prompt0_def)
  with u show ?thesis by (simp add: prompt0_def)
qed

section \<open>C10: selections without duplicates\<close>

lemma list_ex_find: "list_ex P xs \<longleftrightarrow> find P xs \<noteq> None"
  by (auto simp: list_ex_iff find_None_iff)

lemma read_eq:
  "addUserPromptSelection_read pid uid w =
     (Inr (\<lparr>sel_id = None, sel_userId = userId_or_default uid, sel_promptId = pid,
            sel_createdAt = clock w\<rparr>, selections w), w)"
  by (simp add: addUserPromptSelection_read_def Let_def io_defs now_def
      dbOperations_getAll_selection_def)

lemma resume_existing:
  "find (same_selection pid (userId_or_default uid)) sels = Some s \<Longrightarrow>
   addUserPromptSelection_resume pid uid (ns, sels) w = (Inr s, w)"
  by (simp add: addUserPromptSelection_resume_def Let_def io_defs list_ex_find)

lemma resume_new:
  "find (same_selection pid (userId_or_default uid)) sels = None \<Longrightarrow>
   addUserPromptSelection_resume pid uid (ns, sels) w =
     (Inr (ns\<lparr>sel_id := Some (selections_key w)\<rparr>),
      w\<lparr>selections := selections w @ [ns\<lparr>sel_id := Some (selections_key w)\<rparr>],
        selections_key := Suc (selections_key w)\<rparr>)"
  by (simp add: addUserPromptSelection_resume_def Let_def io_defs list_ex_find
      dbOperations_add_selection_def)

lemma add_existing:
  "find (same_selection pid (userId_or_default uid)) (selections w) = Some s \<Longrightarrow>
   addUserPromptSelection pid uid w = (Inr s, w)"
  by (simp add: addUserPromptSelection_def io_bind_def read_eq resume_existing)

lemma resume_preserves:
  assumes "no_duplicate_selection u" "sel_promptId ns = pid" "sel_userId ns = userId_or_default uid"
  shows "no_duplicate_selection (snd (addUserPromptSelection_resume pid uid (ns, selections u) u))"
proof (cases "find (same_selection pid (userId_or_default uid)) (selections u)")
  case None
  then have "(pid, userId_or_default uid) \<notin> set (map (\<lambda>s. (sel_promptId s, sel_userId s)) (selections u))"
    by (auto simp: find_None_iff same_selection_def)
  with assms show ?thesis
    by (simp add: resume_new[OF None] no_duplicate_selection_def)
next
  case (Some s)
  with assms(1) show ?thesis by (simp add: resume_existing)
qed

lemma add_preserves:
  assumes "no_duplicate_selection w"
  shows "no_duplicate_selection (snd (addUserPromptSelection pid uid w))"
  using resume_preserves[OF assms, of _ pid uid]
  by (simp add: addUserPromptSelection_def io_bind_def read_eq)

lemma remove_resume_selections:
  "\<exists>P. selections (snd (removeUserPromptSelection_resume pid uid sels w)) = filter P (selections w)"
proof -
  have "selections (snd (removeUserPromptSelection_resume pid uid sels w)) = filter (\<lambda>_. True) (selections w) \<or>
        (\<exists>i. selections (snd (removeUserPromptSelection_resume pid uid sels w)) =
              filter (\<lambda>s. sel_id s \<noteq> Some i) (selections w))"
    by (auto simp: removeUserPromptSelection_resume_def Let_def io_defs dbOperations_remove_selection_def
        split: option.splits)
  then show ?thesis by blast
qed

lemma remove_resume_preserves:
  assumes "no_duplicate_selection w"
  shows "no_duplicate_selection (snd (removeUserPromptSelection_resume pid uid sels w))"
proof -
  from remove_resume_selections[of pid uid sels w] obtain P where
    "selections (snd (removeUserPromptSelection_resume pid uid sels w)) = filter P (selections w)"
    by blast
  with assms show ?thesis
    by (simp add: no_duplicate_selection_def distinct_map_filter)
qed

lemma remove_preserves:
  assumes "no_duplicate_selection w"
  shows "no_duplicate_selection (snd (removeUserPromptSelection pid uid w))"
  using remove_resume_preserves[OF assms, of pid uid "selections w"]
  by (simp add: removeUserPromptSelection_def io_bind_def dbOperations_getAll_selection_def)

text \<open>
  Claim C10, amended. A call of \<^verbatim>\<open>addUserPromptSelection\<close> during which no other call runs
  returns the first stored selection with the prompt identifier and the user identifier when
  there is one, leaving the environment as it is, and keeps the store free of two selections
  with the same pair; so does \<^verbatim>\<open>removeUserPromptSelection\<close>. More precisely, the second step
  of \<^verbatim>\<open>addUserPromptSelection\<close> keeps the store free of duplicates whenever the list it read is
  still what the store holds, and the second step of \<^verbatim>\<open>removeUserPromptSelection\<close> does so
  whatever list it read. Two calls for the same pair that both read before either resumes
  store the pair twice, see the counterexample below.
\<close>

theorem addUserPromptSelection_no_duplicate:
  "(find (same_selection pid (userId_or_default uid)) (selections w) = Some s \<longrightarrow>
      addUserPromptSelection pid uid w = (Inr s, w)) \<and>
   (no_duplicate_selection v \<longrightarrow>
      no_duplicate_selection (snd (addUserPromptSelection pid uid v)) \<and>
      no_duplicate_selection (snd (removeUserPromptSelection pid uid v))) \<and>
   (no_duplicate_selection u \<and> sel_promptId ns = pid \<and> sel_userId ns = userId_or_default uid \<longrightarrow>
      no_duplicate_selection (snd (addUserPromptSelection_resume pid uid (ns, selections u) u))) \<and>
   (no_duplicate_selection x \<longrightarrow>
      no_duplicate_selection (snd (removeUserPromptSelection_resume pid uid sels x)))"
  using add_existing[of pid uid w s] add_preserves[of v pid uid] remove_preserves[of v pid uid]
    resume_preserves[of u ns pid uid] remove_resume_preserves[of x pid uid sels]
  by blast

theorem addUserPromptSelection_no_duplicate_witness:
  "find (same_selection ''7'' (userId_or_default None)) (selections world_sel) = Some selection0 \<and>
   no_duplicate_selection world_sel \<and>
   sel_promptId selection0 = ''7'' \<and> sel_userId selection0 = userId_or_default None \<and>
   addUserPromptSelection ''7'' None world_sel = (Inr selection0, world_sel) \<and>
   no_duplicate_selection (snd (addUserPromptSelection ''7'' None world_sel)) \<and>
   no_duplicate_selection (snd (removeUserPromptSelection ''7'' None world_sel)) \<and>
   no_duplicate_selection
     (snd (addUserPromptSelection_resume ''7'' None (selection0, selections world_sel) world_sel)) \<and>
   no_duplicate_selection (snd (removeUserPromptSelection_resume ''7'' None [] world_sel))"
proof -
  have a: "find (same_selection ''7'' (userId_or_default None)) (selections world_sel) = Some selection0"
    by (simp add: world_sel_def selection0_def same_selection_def userId_or_default_def)
  have b: "no_duplicate_selection world_sel"
    by (simp add: no_duplicate_selection_def world_sel_def)
  have c: "sel_promptId selection0 = ''7''" "sel_userId selection0 = userId_or_default None"
    by (simp_all add: selection0_def userId_or_default_def)
  from addUserPromptSelection_no_duplicate[of "''7''" None world_sel selection0 world_sel world_sel
      selection0 world_sel "[]"] a b c
  show ?thesis by simp
qed

theorem addUserPromptSelection_interleaved_counterexample:
  "no_duplicate_selection world0 \<and>
   map (\<lambda>s. (sel_promptId s, sel_userId s))
     (selections (snd (addUserPromptSelection_twice_interleaved ''7'' None world0))) =
     [(''7'', ''local_user''), (''7'', ''local_user'')] \<and>
   \<not> no_duplicate_selection (snd (addUserPromptSelection_twice_interleaved ''7'' None world0))"
proof -
  have f: "find (same_selection ''7'' (userId_or_default None)) (selections world0) = None"
    by (simp add: world0_def)
  have s: "selections (snd (addUserPromptSelection_twice_interleaved ''7'' None world0)) =
      [\<lparr>sel_id = Some 1, sel_userId = ''local_user'', sel_promptId = ''7'', sel_createdAt = 1000\<rparr>,
       \<lparr>sel_id = Some 2, sel_userId = ''local_user'', sel_promptId = ''7'', sel_createdAt = 1000\<rparr>]"
    using f
    by (simp add: addUserPromptSelection_twice_interleaved_def io_bind_def io_return_def read_eq
        resume_new) (simp add: world0_def userId_or_default_def)
  show ?thesis
    by (simp add: s no_duplicate_selection_def) (simp add: world0_def)
qed

end
